theory Spec2Isabelle
  imports Complex_Main
begin

section \<open>Trapped surfaces in axisymmetric Brill-Lindquist data (findhorizon.py)\<close>

text \<open>
  The module locates a trapped surface \<open>h(\<theta>)\<close> by shooting: the right-hand side
  \<open>expansion\<close>, two shooting objectives, the root-finding driver \<open>find_r0\<close>, the dense
  re-integration \<open>solve_given_r0\<close> and the two-body helper
  \<open>FindHorizonBinarySymmetric\<close>.

  Floats are modelled as \<open>real\<close> (\<open>np.pi\<close> is \<open>pi\<close>, \<open>1e-16\<close> is \<open>1 / 10 ^ 16\<close>), so
  rounding and overflow are outside the model. The quotient by the radius \<open>h\<close> at
  \<open>h = 0\<close> is modelled as the code has it (see \<open>expansion_on\<close>); any other quotient by
  zero, which numpy answers with \<open>inf\<close> or \<open>nan\<close> and a warning, is never relied upon in
  a statement. Python exceptions are values of \<open>error\<close>, carried in the left summand.
\<close>

subsection \<open>Errors and data\<close>

text \<open>
  \<open>NonFinite\<close> is not an exception. It stands for a call that returns normally with
  \<open>nan\<close> in its result, which no real number models: float64 arithmetic answers a
  division by zero with \<open>inf\<close> or \<open>nan\<close> and a \<open>RuntimeWarning\<close>.
\<close>

datatype error =
  IndexError | ValueError | RuntimeError | AttributeError | ZeroDivisionError | NonFinite

text \<open>
  The element type of a state \<open>H\<close>, which Python leaves dynamic: a list of Python floats
  (the docstring's "list of float"), or the float64 array that scipy's \<open>ode\<close> hands to
  its callback.
\<close>

datatype float_kind = PyFloat | Float64

text \<open>A surface state is the 2-vector \<open>H = (h, h')\<close>.\<close>

type_synonym surface_state = "real \<times> real"

text \<open>The right-hand side handed to the integrator: \<open>f(theta, H)\<close>, which may raise.\<close>

type_synonym rhs = "real \<Rightarrow> surface_state \<Rightarrow> error + surface_state"

record spacetime =
  reflection_symmetric :: bool
  z_positions :: "real list"
  masses :: "real list"
  N :: nat

text \<open>\<open>spacetime.__init__(z_positions, masses, reflection_symmetric=False)\<close>.\<close>

definition spacetime_init :: "real list \<Rightarrow> real list \<Rightarrow> bool \<Rightarrow> spacetime" where
  "spacetime_init zs ms flag =
     \<lparr>reflection_symmetric = flag, z_positions = zs, masses = ms, N = length zs\<rparr>"

text \<open>
  \<open>trappedsurface\<close>: the centre and the spacetime are set by \<open>__init__\<close>; the other
  attributes do not exist (\<open>None\<close>) until \<open>find_r0\<close>, \<open>solve_given_r0\<close> and
  \<open>convert_to_cartesian\<close> assign them. Fields carry the prefix \<open>ts_\<close>.
\<close>

record trappedsurface =
  ts_z_centre :: real
  ts_spacetime :: spacetime
  ts_r0 :: "real list option"
  ts_H :: "surface_state list option"
  ts_theta :: "real list option"
  ts_x :: "real list option"
  ts_z :: "real list option"
  ts_X :: "real list list option"
  ts_Y :: "real list list option"
  ts_Z :: "real list list option"
  ts_R :: "real list list option"

text \<open>\<open>trappedsurface.__init__(spacetime, z_centre=0.0)\<close>.\<close>

definition trappedsurface_init :: "spacetime \<Rightarrow> real \<Rightarrow> trappedsurface" where
  "trappedsurface_init st zc =
     \<lparr>ts_z_centre = zc, ts_spacetime = st, ts_r0 = None, ts_H = None, ts_theta = None,
      ts_x = None, ts_z = None, ts_X = None, ts_Y = None, ts_Z = None, ts_R = None\<rparr>"

subsection \<open>The expansion right-hand side\<close>

text \<open>
  First loop of \<open>expansion\<close>: \<open>distance_i[i]\<close> for every \<open>i\<close> in \<open>range(len(z_i))\<close>.
\<close>

definition distance_i :: "real list \<Rightarrow> real \<Rightarrow> real \<Rightarrow> real list" where
  "distance_i z_i h theta =
     map (\<lambda>z. sqrt ((h * sin theta) ^ 2 + (h * cos theta - z) ^ 2)) z_i"

text \<open>
  Second loop: the accumulators \<open>(psi, dpsi_dr, dpsi_dtheta)\<close> over
  \<open>range(len(m_i))\<close>. Reading \<open>distance_i[i]\<close> or \<open>z_i[i]\<close> past the end of the position
  array raises \<open>IndexError\<close>.
\<close>

fun psi_loop ::
  "real list \<Rightarrow> real list \<Rightarrow> real list \<Rightarrow> real \<Rightarrow> real \<Rightarrow> nat list
   \<Rightarrow> real \<times> real \<times> real \<Rightarrow> error + real \<times> real \<times> real" where
  "psi_loop m_i z_i d_i h theta [] acc = Inr acc"
| "psi_loop m_i z_i d_i h theta (i # rest) (psi, dpsi_dr, dpsi_dtheta) =
     (if i < length d_i \<and> i < length z_i then
        psi_loop m_i z_i d_i h theta rest
          (psi + 0.5 * (m_i ! i) / (d_i ! i),
           dpsi_dr + 0.5 * (m_i ! i) * ((z_i ! i) * cos theta - h) / (d_i ! i) ^ 3,
           dpsi_dtheta + 0.5 * (m_i ! i) * h * (- (z_i ! i) * sin theta) / (d_i ! i) ^ 3)
      else Inl IndexError)"

text \<open>
  \<open>expansion(self, theta, H)\<close>, with the element type of \<open>H\<close> as a parameter. The two
  kinds differ at \<open>h = 0\<close> only, in the quotient \<open>dhdtheta / h\<close> of the line that
  computes \<open>C\<close>: on Python floats it raises \<open>ZeroDivisionError\<close>, before the second
  loop is reached; on float64 it is \<open>inf\<close> or \<open>nan\<close>, the call goes on, and the second
  component of what it returns is \<open>nan\<close> (\<open>4 h\<^sup>2 / (psi C\<^sup>2)\<close> is \<open>0 / 0\<close> or has
  \<open>C = nan\<close>).
\<close>

definition expansion_on :: "float_kind \<Rightarrow> trappedsurface \<Rightarrow> rhs" where
  "expansion_on kind ts theta H =
     (let h = fst H;
          dhdtheta = snd H;
          z_i = map (\<lambda>z. z - ts_z_centre ts) (z_positions (ts_spacetime ts));
          m_i = masses (ts_spacetime ts);
          d_i = distance_i z_i h theta
      in if h = 0 \<and> kind = PyFloat then Inl ZeroDivisionError
         else
           let C = 1 / sqrt (1 + (dhdtheta / h) ^ 2);
               cot_theta_dhdtheta_C2 =
                 (if \<bar>theta\<bar> < 1 / 10 ^ 16 \<or> \<bar>theta - pi\<bar> < 1 / 10 ^ 16 then 0
                  else dhdtheta / (tan theta * C ^ 2))
           in case psi_loop m_i z_i d_i h theta [0..<length m_i] (1, 0, 0) of
                Inl e \<Rightarrow> Inl e
              | Inr (psi, dpsi_dr, dpsi_dtheta) \<Rightarrow>
                  if h = 0 then Inl NonFinite
                  else
                    Inr (dhdtheta,
                         2 * h - cot_theta_dhdtheta_C2
                         + 4 * h ^ 2 / (psi * C ^ 2)
                           * (dpsi_dr - dpsi_dtheta * dhdtheta / h ^ 2)
                         + 3 * dhdtheta ^ 2 / h))"

text \<open>
  The right-hand side as the integrator calls it: scipy's \<open>ode\<close> passes the state as a
  float64 array.
\<close>

definition expansion :: "trappedsurface \<Rightarrow> rhs" where
  "expansion ts = expansion_on Float64 ts"

text \<open>
  The quantities of the specification, in closed form: the distance to singularity \<open>i\<close>,
  the conformal factor and its two partial derivatives as sums over the masses, the
  factor \<open>C\<close> and the angular-curvature term with its guard at the axis.
\<close>

definition sing_dist :: "trappedsurface \<Rightarrow> real \<Rightarrow> real \<Rightarrow> nat \<Rightarrow> real" where
  "sing_dist ts theta h i =
     sqrt ((h * sin theta) ^ 2
           + (h * cos theta - (z_positions (ts_spacetime ts) ! i - ts_z_centre ts)) ^ 2)"

definition psi_sum :: "trappedsurface \<Rightarrow> real \<Rightarrow> real \<Rightarrow> real" where
  "psi_sum ts theta h =
     1 + (\<Sum>i<length (masses (ts_spacetime ts)).
            0.5 * (masses (ts_spacetime ts) ! i) / sing_dist ts theta h i)"

definition dpsi_dr_sum :: "trappedsurface \<Rightarrow> real \<Rightarrow> real \<Rightarrow> real" where
  "dpsi_dr_sum ts theta h =
     (\<Sum>i<length (masses (ts_spacetime ts)).
        0.5 * (masses (ts_spacetime ts) ! i)
        * ((z_positions (ts_spacetime ts) ! i - ts_z_centre ts) * cos theta - h)
        / sing_dist ts theta h i ^ 3)"

definition dpsi_dtheta_sum :: "trappedsurface \<Rightarrow> real \<Rightarrow> real \<Rightarrow> real" where
  "dpsi_dtheta_sum ts theta h =
     (\<Sum>i<length (masses (ts_spacetime ts)).
        0.5 * (masses (ts_spacetime ts) ! i) * h
        * (- (z_positions (ts_spacetime ts) ! i - ts_z_centre ts) * sin theta)
        / sing_dist ts theta h i ^ 3)"

definition C_factor :: "real \<Rightarrow> real \<Rightarrow> real" where
  "C_factor h dhdtheta = 1 / sqrt (1 + (dhdtheta / h) ^ 2)"

definition cot_term :: "real \<Rightarrow> real \<Rightarrow> real \<Rightarrow> real" where
  "cot_term theta h dhdtheta =
     (if \<bar>theta\<bar> < 1 / 10 ^ 16 \<or> \<bar>theta - pi\<bar> < 1 / 10 ^ 16 then 0
      else dhdtheta / (tan theta * C_factor h dhdtheta ^ 2))"

subsection \<open>The numerical library, as capabilities\<close>

text \<open>
  scipy is not part of the module; its three routines are parameters of the model.

  \<^item> \<open>dopri5 f atol rtol y t t1\<close> is one call of the adaptive integrator behind
    \<open>ode.integrate(t1)\<close>: it answers the state and the angle it reached and whether it
    succeeded, or passes on an exception raised by the callback \<open>f\<close>.
  \<^item> \<open>root f x0 tol\<close> is \<open>scipy.optimize.root\<close>: it answers an \<open>OptimizeResult\<close>
    (\<open>sol.x\<close>, \<open>sol.success\<close>, \<open>sol.fun\<close>); a run that does not converge is an
    answer with \<open>success = False\<close>, not an exception.
  \<^item> \<open>brent_iter f a b\<close> is the iteration of \<open>scipy.optimize.brentq\<close> once the bracket
    has been accepted.
\<close>

type_synonym integrator =
  "rhs \<Rightarrow> real \<Rightarrow> real \<Rightarrow> surface_state \<Rightarrow> real \<Rightarrow> real
   \<Rightarrow> error + surface_state \<times> real \<times> bool"

record OptimizeResult =
  sol_x :: "real list"
  sol_success :: bool
  sol_fun :: "real list"

type_synonym root_solver =
  "(real list \<Rightarrow> error + real list) \<Rightarrow> real list \<Rightarrow> real \<Rightarrow> error + OptimizeResult"

type_synonym bracket_solver =
  "(real \<Rightarrow> error + real) \<Rightarrow> real \<Rightarrow> real \<Rightarrow> error + real"

record scipy =
  dopri5 :: integrator
  root :: root_solver
  brent_iter :: bracket_solver

text \<open>
  \<open>brentq(f, a, b)\<close> evaluates \<open>f\<close> at both ends and raises \<open>ValueError\<close> when the two
  values have the same strict sign; this is the exception that
  \<open>FindHorizonBinarySymmetric\<close> catches.
\<close>

definition brentq :: "scipy \<Rightarrow> (real \<Rightarrow> error + real) \<Rightarrow> real \<Rightarrow> real \<Rightarrow> error + real" where
  "brentq env f a b =
     (case f a of
        Inl e \<Rightarrow> Inl e
      | Inr fa \<Rightarrow>
          (case f b of
             Inl e \<Rightarrow> Inl e
           | Inr fb \<Rightarrow> if fa * fb > 0 then Inl ValueError else brent_iter env f a b))"

text \<open>
  The \<open>ode\<close> object. The module always builds it with the same three calls,
  \<open>ode(f)\<close>, \<open>set_integrator("dopri5", atol, rtol)\<close> and
  \<open>set_initial_value(y, t)\<close>, which \<open>ode_init\<close> does in one step.
\<close>

record ode_solver =
  ode_f :: rhs
  ode_atol :: real
  ode_rtol :: real
  ode_y :: surface_state
  ode_t :: real
  ode_success :: bool

definition ode_init :: "rhs \<Rightarrow> real \<Rightarrow> real \<Rightarrow> surface_state \<Rightarrow> real \<Rightarrow> ode_solver" where
  "ode_init f atol rtol y t =
     \<lparr>ode_f = f, ode_atol = atol, ode_rtol = rtol, ode_y = y, ode_t = t,
      ode_success = True\<rparr>"

definition integrate :: "scipy \<Rightarrow> ode_solver \<Rightarrow> real \<Rightarrow> error + ode_solver" where
  "integrate env solver t1 =
     (case dopri5 env (ode_f solver) (ode_atol solver) (ode_rtol solver)
             (ode_y solver) (ode_t solver) t1 of
        Inl e \<Rightarrow> Inl e
      | Inr (y, t, ok) \<Rightarrow> Inr (solver\<lparr>ode_y := y, ode_t := t, ode_success := ok\<rparr>))"

definition successful :: "ode_solver \<Rightarrow> bool" where
  "successful solver = ode_success solver"

subsection \<open>The shooting objectives\<close>

definition shooting_function :: "scipy \<Rightarrow> trappedsurface \<Rightarrow> real \<Rightarrow> error + real" where
  "shooting_function env ts r0 =
     (let H0 = (r0, 0);
          solver1 = ode_init (expansion ts) (1 / 10 ^ 8) (1 / 10 ^ 6) H0 0
      in case integrate env solver1 (pi / 2) of
           Inl e \<Rightarrow> Inl e
         | Inr solver1 \<Rightarrow> Inr (snd (ode_y solver1)))"

definition shooting_function_full ::
  "scipy \<Rightarrow> trappedsurface \<Rightarrow> real list \<Rightarrow> error + real list" where
  "shooting_function_full env ts r0 =
     (if length r0 < 1 then Inl IndexError
      else
        let H0 = (r0 ! 0, 0);
            solver1 = ode_init (expansion ts) (1 / 10 ^ 8) (1 / 10 ^ 6) H0 0
        in case integrate env solver1 (pi / 2) of
             Inl e \<Rightarrow> Inl e
           | Inr solver1 \<Rightarrow>
               if length r0 < 2 then Inl IndexError
               else
                 let H0 = (r0 ! 1, 0);
                     solver2 = ode_init (expansion ts) (1 / 10 ^ 8) (1 / 10 ^ 6) H0 pi
                 in case integrate env solver2 (pi / 2) of
                      Inl e \<Rightarrow> Inl e
                    | Inr solver2 \<Rightarrow>
                        Inr [fst (ode_y solver1) - fst (ode_y solver2),
                             snd (ode_y solver1) - snd (ode_y solver2)])"

subsection \<open>Finding the initial radius\<close>

text \<open>
  \<open>find_r0\<close> first assigns \<open>self.r0 = []\<close>; an exception raised afterwards leaves the
  object in that state. The model returns the exception, if any, with the object.
\<close>

definition find_r0 ::
  "scipy \<Rightarrow> trappedsurface \<Rightarrow> real list \<Rightarrow> bool \<Rightarrow> error option \<times> trappedsurface" where
  "find_r0 env ts input_guess full_horizon =
     (let ts = ts\<lparr>ts_r0 := Some []\<rparr> in
      if full_horizon \<or> \<not> reflection_symmetric (ts_spacetime ts) then
        (case root env (shooting_function_full env ts) input_guess (1 / 10 ^ 12) of
           Inl e \<Rightarrow> (Some e, ts)
         | Inr sol \<Rightarrow> (None, ts\<lparr>ts_r0 := Some (sol_x sol)\<rparr>))
      else if length input_guess < 2 then (Some IndexError, ts)
      else
        (case brentq env (shooting_function env ts) (input_guess ! 0) (input_guess ! 1) of
           Inl e \<Rightarrow> (Some e, ts)
         | Inr sol \<Rightarrow> (None, ts\<lparr>ts_r0 := Some [sol]\<rparr>)))"

subsection \<open>Solving for the surface\<close>

definition dtheta :: real where
  "dtheta = pi / 100"

text \<open>
  \<open>while solver1.successful() and solver1.t < np.pi / 2.0\<close>: nothing in the module
  bounds the number of rounds, so the loop is a partial function and \<open>None\<close> stands
  for a run that never leaves it.
\<close>

partial_function (option) forward_loop ::
  "scipy \<Rightarrow> ode_solver \<Rightarrow> surface_state list \<Rightarrow> real list
   \<Rightarrow> (error + surface_state list \<times> real list) option" where
  "forward_loop env solver1 H1 theta1 =
     (if successful solver1 \<and> ode_t solver1 < pi / 2 then
        (case integrate env solver1 (ode_t solver1 + dtheta) of
           Inl e \<Rightarrow> Some (Inl e)
         | Inr solver1 \<Rightarrow>
             forward_loop env solver1 (H1 @ [ode_y solver1]) (theta1 @ [ode_t solver1]))
      else Some (Inr (H1, theta1)))"

text \<open>\<open>while solver2.successful() and solver2.t >= np.pi / 2.0 + 1e-12\<close>.\<close>

partial_function (option) backward_loop ::
  "scipy \<Rightarrow> ode_solver \<Rightarrow> surface_state list \<Rightarrow> real list
   \<Rightarrow> (error + surface_state list \<times> real list) option" where
  "backward_loop env solver2 H2 theta2 =
     (if successful solver2 \<and> ode_t solver2 \<ge> pi / 2 + 1 / 10 ^ 12 then
        (case integrate env solver2 (ode_t solver2 - dtheta) of
           Inl e \<Rightarrow> Some (Inl e)
         | Inr solver2 \<Rightarrow>
             backward_loop env solver2 (H2 @ [ode_y solver2]) (theta2 @ [ode_t solver2]))
      else Some (Inr (H2, theta2)))"

text \<open>
  The last two statements of \<open>solve_given_r0\<close>: \<open>vstack\<close> and \<open>hstack\<close> append,
  \<open>flipud\<close> reverses.
\<close>

definition fill_remaining ::
  "trappedsurface \<Rightarrow> surface_state list \<Rightarrow> real list \<Rightarrow> trappedsurface" where
  "fill_remaining ts H theta =
     ts\<lparr>ts_H := Some (H @ rev H), ts_theta := Some (theta @ map (\<lambda>t. t + pi) theta)\<rparr>"

definition solve_given_r0 ::
  "scipy \<Rightarrow> trappedsurface \<Rightarrow> bool \<Rightarrow> (error + trappedsurface) option" where
  "solve_given_r0 env ts full_horizon =
     (case ts_r0 ts of
        None \<Rightarrow> Some (Inl AttributeError)
      | Some r0 \<Rightarrow>
          if full_horizon \<or> \<not> reflection_symmetric (ts_spacetime ts) then
            if length r0 < 1 then Some (Inl IndexError)
            else
              let H0 = (r0 ! 0, 0);
                  solver1 = ode_init (expansion ts) (1 / 10 ^ 8) (1 / 10 ^ 6) H0 0
              in case forward_loop env solver1 [H0] [0] of
                   None \<Rightarrow> None
                 | Some (Inl e) \<Rightarrow> Some (Inl e)
                 | Some (Inr (H1, theta1)) \<Rightarrow>
                     if length r0 < 2 then Some (Inl IndexError)
                     else
                       let H0 = (r0 ! 1, 0);
                           solver2 = ode_init (expansion ts) (1 / 10 ^ 8) (1 / 10 ^ 6) H0 pi
                       in case backward_loop env solver2 [H0] [pi] of
                            None \<Rightarrow> None
                          | Some (Inl e) \<Rightarrow> Some (Inl e)
                          | Some (Inr (H2, theta2)) \<Rightarrow>
                              Some (Inr (fill_remaining ts (H1 @ rev H2) (theta1 @ rev theta2)))
          else
            if length r0 < 1 then Some (Inl IndexError)
            else
              let H0 = (r0 ! 0, 0);
                  solver1 = ode_init (expansion ts) (1 / 10 ^ 8) (1 / 10 ^ 6) H0 0
              in case forward_loop env solver1 [H0] [0] of
                   None \<Rightarrow> None
                 | Some (Inl e) \<Rightarrow> Some (Inl e)
                 | Some (Inr (H1, theta1)) \<Rightarrow>
                     Some (Inr (fill_remaining ts (H1 @ rev H1)
                                  (theta1 @ rev (map (\<lambda>t. pi - t) theta1)))))"

subsection \<open>Cartesian coordinates\<close>

text \<open>
  \<open>np.linspace(start, stop, num)\<close>: \<open>num\<close> evenly spaced samples, the last one set to
  \<open>stop\<close>. \<open>num\<close> defaults to 50.
\<close>

definition linspace :: "real \<Rightarrow> real \<Rightarrow> nat \<Rightarrow> real list" where
  "linspace start stop num =
     (if num = 0 then []
      else if num = 1 then [start]
      else map (\<lambda>i. start + real i * ((stop - start) / real (num - 1))) [0..<num - 1]
           @ [stop])"

text \<open>
  \<open>self.H[:, 0] * f(self.theta)\<close>, elementwise with numpy's broadcasting of a
  one-element operand; any other mismatch of the lengths raises \<open>ValueError\<close>.
\<close>

definition broadcast_mul :: "real list \<Rightarrow> real list \<Rightarrow> error + real list" where
  "broadcast_mul a b =
     (if length a = length b then Inr (map (\<lambda>(u, v). u * v) (zip a b))
      else if length b = 1 then Inr (map (\<lambda>u. u * (b ! 0)) a)
      else if length a = 1 then Inr (map (\<lambda>v. (a ! 0) * v) b)
      else Inl ValueError)"

text \<open>
  The mesh loops read \<open>self.H[t, 0]\<close> for every \<open>t\<close> in \<open>range(len(self.theta))\<close>.
\<close>

definition mesh ::
  "surface_state list \<Rightarrow> real list \<Rightarrow> real list \<Rightarrow> (real \<Rightarrow> real \<Rightarrow> real \<Rightarrow> real)
   \<Rightarrow> real list list" where
  "mesh H theta phi g =
     map (\<lambda>t. map (\<lambda>p. g (fst (H ! t)) (theta ! t) (phi ! p)) [0..<length phi])
       [0..<length theta]"

definition convert_to_cartesian :: "trappedsurface \<Rightarrow> error + trappedsurface" where
  "convert_to_cartesian ts =
     (case (ts_H ts, ts_theta ts) of
        (Some H, Some theta) \<Rightarrow>
          (case broadcast_mul (map fst H) (map sin theta) of
             Inl e \<Rightarrow> Inl e
           | Inr x \<Rightarrow>
               (case broadcast_mul (map fst H) (map cos theta) of
                  Inl e \<Rightarrow> Inl e
                | Inr hz \<Rightarrow>
                    if length H < length theta then Inl IndexError
                    else
                      let phi = linspace 0 (2 * pi) 20;
                          X = mesh H theta phi (\<lambda>h t p. h * sin t * cos p);
                          Y = mesh H theta phi (\<lambda>h t p. h * sin t * sin p);
                          Z = mesh H theta phi (\<lambda>h t p. h * cos t)
                      in Inr (ts\<lparr>ts_x := Some x,
                                 ts_z := Some (map (\<lambda>v. ts_z_centre ts + v) hz),
                                 ts_X := Some X, ts_Y := Some Y, ts_Z := Some Z,
                                 ts_R := Some (map (\<lambda>t. map (\<lambda>p.
                                    sqrt ((X ! t ! p) ^ 2 + (Y ! t ! p) ^ 2 + (Z ! t ! p) ^ 2))
                                    [0..<length phi]) [0..<length theta])\<rparr>)))
      | _ \<Rightarrow> Inl AttributeError)"

subsection \<open>The two-body helper\<close>

text \<open>\<open>np.argmin\<close>: the first index at which the least value stands.\<close>

fun argmin_from :: "real list \<Rightarrow> nat \<Rightarrow> nat \<Rightarrow> real \<Rightarrow> nat" where
  "argmin_from [] i best v = best"
| "argmin_from (y # ys) i best v =
     (if y < v then argmin_from ys (Suc i) i y else argmin_from ys (Suc i) best v)"

definition argmin :: "real list \<Rightarrow> error + nat" where
  "argmin phi = (case phi of [] \<Rightarrow> Inl ValueError | y # ys \<Rightarrow> Inr (argmin_from ys 1 0 y))"

text \<open>
  \<open>for i in range(len(r0)): phi[i] = ts.shooting_function(r0[i])\<close>; the first exception
  ends the loop.
\<close>

fun scan_phi :: "scipy \<Rightarrow> trappedsurface \<Rightarrow> real list \<Rightarrow> error + real list" where
  "scan_phi env ts [] = Inr []"
| "scan_phi env ts (r # rs) =
     (case shooting_function env ts r of
        Inl e \<Rightarrow> Inl e
      | Inr v \<Rightarrow> (case scan_phi env ts rs of Inl e \<Rightarrow> Inl e | Inr vs \<Rightarrow> Inr (v # vs)))"

definition r0_empirical :: "real \<Rightarrow> real \<Rightarrow> real" where
  "r0_empirical z mass = mass * (1 - 0.0383 * z + 0.945 * z ^ 2 - 0.522 * z ^ 3)"

text \<open>The tail of the helper: \<open>solve_given_r0\<close>, \<open>convert_to_cartesian\<close>, \<open>return ts\<close>.\<close>

definition solve_and_convert :: "scipy \<Rightarrow> trappedsurface \<Rightarrow> (error + trappedsurface) option" where
  "solve_and_convert env ts =
     (case solve_given_r0 env ts False of
        None \<Rightarrow> None
      | Some (Inl e) \<Rightarrow> Some (Inl e)
      | Some (Inr ts) \<Rightarrow> Some (convert_to_cartesian ts))"

text \<open>The \<open>except ValueError\<close> block, up to the second \<open>find_r0\<close>.\<close>

definition scan_and_retry ::
  "scipy \<Rightarrow> trappedsurface \<Rightarrow> real \<Rightarrow> error option \<times> trappedsurface" where
  "scan_and_retry env ts r0_emp =
     (let r0 = linspace (0.95 * r0_emp) (1.05 * r0_emp) 50 in
      case scan_phi env ts r0 of
        Inl e \<Rightarrow> (Some e, ts)
      | Inr phi \<Rightarrow>
          (case argmin phi of
             Inl e \<Rightarrow> (Some e, ts)
           | Inr k \<Rightarrow> find_r0 env ts [r0 ! k, last r0] False))"

definition FindHorizonBinarySymmetric ::
  "scipy \<Rightarrow> real \<Rightarrow> real \<Rightarrow> (error + trappedsurface) option" where
  "FindHorizonBinarySymmetric env z mass =
     (let st = spacetime_init [- z, z] [mass, mass] True;
          ts = trappedsurface_init st 0;
          r0_emp = r0_empirical z mass;
          initial_guess = [0.99 * r0_emp, 1.01 * r0_emp]
      in case find_r0 env ts initial_guess False of
           (None, ts) \<Rightarrow> solve_and_convert env ts
         | (Some ValueError, ts) \<Rightarrow>
             (case scan_and_retry env ts r0_emp of
                (None, ts) \<Rightarrow> solve_and_convert env ts
              | (Some e, ts) \<Rightarrow> Some (Inl e))
         | (Some e, ts) \<Rightarrow> Some (Inl e))"

subsection \<open>Concrete instances of the capabilities\<close>

text \<open>
  To run the model at concrete inputs the capabilities need instances. These are small
  members of each interface: an integrator that takes one explicit Euler step to the
  target, a root solver with no iteration budget (it evaluates the residual at the guess
  and reports whether it meets the tolerance), and a bracket iteration that answers the
  midpoint.
\<close>

definition euler_step :: integrator where
  "euler_step f atol rtol y t t1 =
     (case f t y of
        Inl e \<Rightarrow> Inl e
      | Inr d \<Rightarrow> Inr ((fst y + (t1 - t) * fst d, snd y + (t1 - t) * snd d), t1, True))"

definition root_no_budget :: root_solver where
  "root_no_budget f x0 tol =
     (case f x0 of
        Inl e \<Rightarrow> Inl e
      | Inr res \<Rightarrow>
          Inr \<lparr>sol_x = x0, sol_success = list_all (\<lambda>v. \<bar>v\<bar> \<le> tol) res, sol_fun = res\<rparr>)"

definition midpoint_iter :: bracket_solver where
  "midpoint_iter f a b = Inr ((a + b) / 2)"

definition euler_env :: scipy where
  "euler_env = \<lparr>dopri5 = euler_step, root = root_no_budget, brent_iter = midpoint_iter\<rparr>"

text \<open>
  The second derivative that \<open>expansion\<close> returns for a state at rest, \<open>h' = 0\<close>: there
  \<open>C = 1\<close> and the angular term vanishes.
\<close>

definition euler_slope :: "trappedsurface \<Rightarrow> real \<Rightarrow> real \<Rightarrow> real" where
  "euler_slope ts theta r = 2 * r + 4 * r ^ 2 / psi_sum ts theta r * dpsi_dr_sum ts theta r"

text \<open>
  A record of a quarter-domain run of 50 successful calls of the integrator: the 51
  states \<open>ys\<close> and the 51 angles \<open>thetas\<close> that the calls report, each call made from
  the sample before it towards that sample's angle plus (or minus) the step. Going up
  from 0 the angles stay below \<open>\<pi>/2\<close> until the last one, which is not below it; going
  down from \<open>\<pi>\<close> they stay at \<open>\<pi>/2 + 10\<^sup>-\<^sup>1\<^sup>2\<close> or above until the last one, which is
  below it. Only the calls of the run itself are constrained, and the angle a call
  reports need not be its target.
\<close>

definition forward_run :: "scipy \<Rightarrow> rhs \<Rightarrow> surface_state list \<Rightarrow> real list \<Rightarrow> bool" where
  "forward_run env f ys thetas =
     (length ys = 51 \<and> length thetas = 51 \<and> thetas ! 0 = 0 \<and> pi / 2 \<le> thetas ! 50
      \<and> list_all
          (\<lambda>k. thetas ! k < pi / 2
                \<and> dopri5 env f (1 / 10 ^ 8) (1 / 10 ^ 6) (ys ! k)
                    (thetas ! k) (thetas ! k + dtheta)
                  = Inr (ys ! Suc k, thetas ! Suc k, True))
          [0..<50])"

definition backward_run :: "scipy \<Rightarrow> rhs \<Rightarrow> surface_state list \<Rightarrow> real list \<Rightarrow> bool" where
  "backward_run env f ys thetas =
     (length ys = 51 \<and> length thetas = 51 \<and> thetas ! 0 = pi
      \<and> thetas ! 50 < pi / 2 + 1 / 10 ^ 12
      \<and> list_all
          (\<lambda>k. pi / 2 + 1 / 10 ^ 12 \<le> thetas ! k
                \<and> dopri5 env f (1 / 10 ^ 8) (1 / 10 ^ 6) (ys ! k)
                    (thetas ! k) (thetas ! k - dtheta)
                  = Inr (ys ! Suc k, thetas ! Suc k, True))
          [0..<50])"

text \<open>
  The angles of a run in which every call ends exactly at its target: \<open>k \<pi>/100\<close> going
  up, \<open>\<pi> - k \<pi>/100\<close> going down.
\<close>

definition up_angles :: "real list" where
  "up_angles = map (\<lambda>k. real k * dtheta) [0..<51]"

definition down_angles :: "real list" where
  "down_angles = map (\<lambda>k. pi - real k * dtheta) [0..<51]"

text \<open>The spacetimes of the module's own examples.\<close>

definition schwarzschild :: spacetime where
  "schwarzschild = spacetime_init [0] [1] True"

definition ts1 :: trappedsurface where
  "ts1 = trappedsurface_init schwarzschild 0"

definition binary_main :: spacetime where
  "binary_main = spacetime_init [- 0.5, 0.5] [1, 1] False"

definition ts_main :: trappedsurface where
  "ts_main = trappedsurface_init binary_main 0"

text \<open>
  The surfaces that \<open>FindHorizonBinarySymmetric\<close> starts from, for its default
  arguments \<open>z = 0.5\<close>, \<open>mass = 1.0\<close> and for \<open>z = 0\<close>, \<open>mass = 1.0\<close>.
\<close>

definition ts_binary :: trappedsurface where
  "ts_binary = trappedsurface_init (spacetime_init [- (1 / 2), 1 / 2] [1, 1] True) 0"

definition ts_coincident :: trappedsurface where
  "ts_coincident = trappedsurface_init (spacetime_init [- 0, 0] [1, 1] True) 0"

text \<open>
  A bracket iteration that gives up: \<open>brentq\<close> raises \<open>RuntimeError\<close> when it does not
  converge within its iteration budget.
\<close>

definition stalling_iter :: bracket_solver where
  "stalling_iter f a b = Inl RuntimeError"

definition stalling_env :: scipy where
  "stalling_env = \<lparr>dopri5 = euler_step, root = root_no_budget, brent_iter = stalling_iter\<rparr>"

text \<open>
  The Schwarzschild example once its radius is resolved: the horizon \<open>r0 = [0.5]\<close> for
  the symmetric mode, \<open>r0 = [0.5, 0.5]\<close> for the general one.
\<close>

definition ts1_resolved :: trappedsurface where
  "ts1_resolved = ts1\<lparr>ts_r0 := Some [1 / 2]\<rparr>"

definition ts1_full_resolved :: trappedsurface where
  "ts1_full_resolved = ts1\<lparr>ts_r0 := Some [1 / 2, 1 / 2]\<rparr>"

section \<open>Properties\<close>

subsection \<open>The example objects\<close>

lemma ts1_simps:
  "ts_spacetime ts1 = schwarzschild" "ts_z_centre ts1 = 0" "ts_r0 ts1 = None"
  "masses schwarzschild = [1]" "z_positions schwarzschild = [0]"
  "reflection_symmetric schwarzschild"
  by (simp_all add: ts1_def trappedsurface_init_def schwarzschild_def spacetime_init_def)

lemma ts_main_simps:
  "ts_spacetime ts_main = binary_main" "ts_z_centre ts_main = 0" "ts_r0 ts_main = None"
  "masses binary_main = [1, 1]" "z_positions binary_main = [- 0.5, 0.5]"
  "\<not> reflection_symmetric binary_main"
  by (simp_all add: ts_main_def trappedsurface_init_def binary_main_def spacetime_init_def)

lemma pi_off_axis:
  "\<not> (\<bar>pi / 4\<bar> < 1 / 10 ^ 16 \<or> \<bar>pi / 4 - pi\<bar> < (1::real) / 10 ^ 16)"
  using pi_ge_two by (simp add: abs_if)

subsection \<open>The loop computes the sums\<close>

lemma psi_loop_upt:
  assumes "n \<le> length z_i" "length d_i = length z_i" "k \<le> n"
  shows "psi_loop m_i z_i d_i h theta [k..<n] (a, b, c) =
           Inr (a + (\<Sum>i=k..<n. 0.5 * (m_i ! i) / (d_i ! i)),
                b + (\<Sum>i=k..<n. 0.5 * (m_i ! i) * ((z_i ! i) * cos theta - h) / (d_i ! i) ^ 3),
                c + (\<Sum>i=k..<n. 0.5 * (m_i ! i) * h * (- (z_i ! i) * sin theta) / (d_i ! i) ^ 3))"
  using assms
proof (induction "n - k" arbitrary: k a b c)
  case 0
  then show ?case by simp
next
  case (Suc d)
  then have kn: "k < n" and step: "d = n - Suc k" by linarith+
  have upt: "[k..<n] = k # [Suc k..<n]"
    using kn by (simp add: upt_conv_Cons)
  have inr: "k < length d_i \<and> k < length z_i"
    using kn Suc.prems by linarith
  show ?case
    using Suc.hyps(1)[OF step Suc.prems(1) Suc.prems(2)] kn inr
    by (simp add: upt sum.atLeast_Suc_lessThan add.assoc)
qed

lemma psi_loop_IndexError:
  assumes "length z_i < n" "length d_i = length z_i" "k \<le> length z_i"
  shows "psi_loop m_i z_i d_i h theta [k..<n] acc = Inl IndexError"
  using assms
proof (induction "length z_i - k" arbitrary: k acc)
  case 0
  then have kn: "k < n" and keq: "k = length z_i" by linarith+
  have upt: "[k..<n] = k # [Suc k..<n]"
    using kn by (simp add: upt_conv_Cons)
  obtain a b c where acc: "acc = (a, b, c)" by (cases acc) auto
  show ?case by (subst upt) (simp add: acc keq)
next
  case (Suc d)
  then have kn: "k < n" and klt: "k < length z_i" and step: "d = length z_i - Suc k"
    by linarith+
  have upt: "[k..<n] = k # [Suc k..<n]"
    using kn by (simp add: upt_conv_Cons)
  obtain a b c where acc: "acc = (a, b, c)" by (cases acc) auto
  have "Suc k \<le> length z_i" using klt by simp
  from Suc.hyps(1)[OF step Suc.prems(1) Suc.prems(2) this]
  show ?case using klt Suc.prems(2) by (simp add: upt acc)
qed

lemma psi_loop_sums:
  assumes "length (masses (ts_spacetime ts)) \<le> length (z_positions (ts_spacetime ts))"
  shows "psi_loop (masses (ts_spacetime ts))
           (map (\<lambda>z. z - ts_z_centre ts) (z_positions (ts_spacetime ts)))
           (distance_i (map (\<lambda>z. z - ts_z_centre ts) (z_positions (ts_spacetime ts))) h theta)
           h theta [0..<length (masses (ts_spacetime ts))] (1, 0, 0) =
         Inr (psi_sum ts theta h, dpsi_dr_sum ts theta h, dpsi_dtheta_sum ts theta h)"
proof -
  let ?m = "masses (ts_spacetime ts)"
  let ?z = "map (\<lambda>z. z - ts_z_centre ts) (z_positions (ts_spacetime ts))"
  let ?d = "distance_i ?z h theta"
  let ?n = "length ?m"
  have len: "?n \<le> length ?z" "length ?d = length ?z"
    using assms by (simp_all add: distance_i_def)
  have nth_d: "?d ! i = sing_dist ts theta h i" if "i < ?n" for i
    using that assms by (simp add: distance_i_def sing_dist_def)
  have nth_z: "?z ! i = z_positions (ts_spacetime ts) ! i - ts_z_centre ts" if "i < ?n" for i
    using that assms by simp
  have s1: "(\<Sum>i=0..<?n. 0.5 * (?m ! i) / (?d ! i)) =
        (\<Sum>i<?n. 0.5 * (?m ! i) / sing_dist ts theta h i)"
    unfolding atLeast0LessThan by (rule sum.cong) (simp_all add: nth_d)
  have s2: "(\<Sum>i=0..<?n. 0.5 * (?m ! i) * ((?z ! i) * cos theta - h) / (?d ! i) ^ 3) =
        dpsi_dr_sum ts theta h"
    unfolding atLeast0LessThan dpsi_dr_sum_def
    by (rule sum.cong) (simp_all add: nth_d nth_z del: nth_map)
  have s3: "(\<Sum>i=0..<?n. 0.5 * (?m ! i) * h * (- (?z ! i) * sin theta) / (?d ! i) ^ 3) =
        dpsi_dtheta_sum ts theta h"
    unfolding atLeast0LessThan dpsi_dtheta_sum_def
    by (rule sum.cong) (simp_all add: nth_d nth_z del: nth_map)
  show ?thesis
    unfolding psi_loop_upt[OF len le0] s1 s2 s3 psi_sum_def by simp
qed

lemma expansion_on_closed_form:
  assumes "length (masses (ts_spacetime ts)) \<le> length (z_positions (ts_spacetime ts))"
    and "h \<noteq> 0"
  shows "expansion_on kind ts theta (h, dh) =
           Inr (dh,
                2 * h - cot_term theta h dh
                + 4 * h ^ 2 / (psi_sum ts theta h * C_factor h dh ^ 2)
                  * (dpsi_dr_sum ts theta h - dpsi_dtheta_sum ts theta h * dh / h ^ 2)
                + 3 * dh ^ 2 / h)"
  unfolding expansion_on_def Let_def fst_conv snd_conv psi_loop_sums[OF assms(1)]
  using assms(2) by (simp add: cot_term_def C_factor_def)

lemma expansion_closed_form:
  assumes "length (masses (ts_spacetime ts)) \<le> length (z_positions (ts_spacetime ts))"
    and "h \<noteq> 0"
  shows "expansion ts theta (h, dh) =
           Inr (dh,
                2 * h - cot_term theta h dh
                + 4 * h ^ 2 / (psi_sum ts theta h * C_factor h dh ^ 2)
                  * (dpsi_dr_sum ts theta h - dpsi_dtheta_sum ts theta h * dh / h ^ 2)
                + 3 * dh ^ 2 / h)"
  unfolding expansion_def by (rule expansion_on_closed_form[OF assms])

lemma expansion_on_zero_radius:
  "expansion_on PyFloat ts theta (0, dh) = Inl ZeroDivisionError"
  "length (masses (ts_spacetime ts)) \<le> length (z_positions (ts_spacetime ts)) \<Longrightarrow>
     expansion_on Float64 ts theta (0, dh) = Inl NonFinite"
proof -
  show "expansion_on PyFloat ts theta (0, dh) = Inl ZeroDivisionError"
    by (simp add: expansion_on_def)
  assume len: "length (masses (ts_spacetime ts)) \<le> length (z_positions (ts_spacetime ts))"
  show "expansion_on Float64 ts theta (0, dh) = Inl NonFinite"
    unfolding expansion_on_def Let_def fst_conv snd_conv psi_loop_sums[OF len] by simp
qed

lemma expansion_IndexError:
  assumes "length (z_positions (ts_spacetime ts)) < length (masses (ts_spacetime ts))"
  shows "expansion ts theta H = Inl IndexError"
  unfolding expansion_def expansion_on_def Let_def
  using psi_loop_IndexError[of "map (\<lambda>z. z - ts_z_centre ts) (z_positions (ts_spacetime ts))"
      "length (masses (ts_spacetime ts))"
      "distance_i (map (\<lambda>z. z - ts_z_centre ts) (z_positions (ts_spacetime ts))) (fst H) theta" 0]
    assms
  by (simp add: distance_i_def)

subsection \<open>The right-hand side and its formula\<close>

text \<open>
  C1. Evaluated at \<open>(\<theta>, h, h')\<close> with \<open>h > 0\<close> and every distance positive (and no more
  masses than positions, so that no index is out of range), \<open>expansion\<close> returns
  \<open>(dh/d\<theta>, d\<^sup>2h/d\<theta>\<^sup>2)\<close> with \<open>dh/d\<theta> = h'\<close> and
  \<open>d\<^sup>2h/d\<theta>\<^sup>2 = 2h - cot + 4h\<^sup>2/(\<psi> C\<^sup>2) (\<partial>\<psi>/\<partial>r - \<partial>\<psi>/\<partial>\<theta> h'/h\<^sup>2) + 3h'\<^sup>2/h\<close>, where
  \<open>\<psi> = 1 + \<Sum> 0.5 m\<^sub>i / dist\<^sub>i\<close>, \<open>C = 1/\<surd>(1 + (h'/h)\<^sup>2)\<close>, and the term \<open>cot\<close> is exactly 0
  when \<open>\<theta>\<close> is within \<open>1e-16\<close> of 0 or of \<open>\<pi>\<close> and \<open>h' / (tan \<theta> C\<^sup>2)\<close> otherwise.
\<close>

theorem expansion_formula:
  assumes "0 < h"
    and "\<forall>i. i < length (z_positions (ts_spacetime ts)) \<longrightarrow> 0 < sing_dist ts theta h i"
    and "length (masses (ts_spacetime ts)) \<le> length (z_positions (ts_spacetime ts))"
  shows "expansion ts theta (h, dh) =
           Inr (dh,
                2 * h
                - (if \<bar>theta\<bar> < 1 / 10 ^ 16 \<or> \<bar>theta - pi\<bar> < 1 / 10 ^ 16 then 0
                   else dh / (tan theta * (1 / sqrt (1 + (dh / h) ^ 2)) ^ 2))
                + 4 * h ^ 2
                  / ((1 + (\<Sum>i<length (masses (ts_spacetime ts)).
                             0.5 * (masses (ts_spacetime ts) ! i) / sing_dist ts theta h i))
                     * (1 / sqrt (1 + (dh / h) ^ 2)) ^ 2)
                  * (dpsi_dr_sum ts theta h - dpsi_dtheta_sum ts theta h * dh / h ^ 2)
                + 3 * dh ^ 2 / h)"
proof -
  have "h \<noteq> 0" using assms(1) by simp
  from expansion_closed_form[OF assms(3) this, of theta dh] show ?thesis
    by (simp only: cot_term_def C_factor_def psi_sum_def)
qed


theorem expansion_formula_witness:
  "0 < (1::real)
   \<and> sing_dist ts1 (pi / 4) 1 0 = 1
   \<and> length (masses (ts_spacetime ts1)) = length (z_positions (ts_spacetime ts1))
   \<and> expansion ts1 (pi / 4) (1, 1) = Inr (1, 1 / 3)"
proof -
  have sd: "sing_dist ts1 (pi / 4) 1 0 = 1"
    by (simp add: sing_dist_def ts1_simps cos_45 sin_45 power2_eq_square)
  have d: "\<forall>i. i < length (z_positions (ts_spacetime ts1)) \<longrightarrow> 0 < sing_dist ts1 (pi / 4) 1 i"
    by (simp add: ts1_simps sd)
  have len: "length (masses (ts_spacetime ts1)) \<le> length (z_positions (ts_spacetime ts1))"
    by (simp add: ts1_simps)
  have "expansion ts1 (pi / 4) (1, 1) = Inr (1, 1 / 3)"
    using expansion_formula[of 1 ts1 "pi / 4" 1, OF zero_less_one d len] pi_off_axis
    by (simp add: ts1_simps sd dpsi_dr_sum_def dpsi_dtheta_sum_def tan_45 cos_45 power_divide)
  then show ?thesis
    using sd by (simp add: ts1_simps)
qed

text \<open>
  C6 (as amended). \<open>expansion\<close> has no check of the radius and there is no
  \<open>DomainError\<close> in the module. Evaluated at a negative radius \<open>h < 0\<close> (every distance
  positive, no more masses than positions) it raises nothing and returns the value of
  the same formula as for a positive radius, whatever the element type of the state. At
  \<open>h = 0\<close> the only failure is that of the quotient \<open>dhdtheta / h\<close>: on a state of Python
  floats the call raises \<open>ZeroDivisionError\<close>; on a float64 state, which is what the
  integrator passes, it raises nothing and returns \<open>nan\<close> in the second component.
\<close>

theorem expansion_nonpositive_radius:
  assumes "length (masses (ts_spacetime ts)) \<le> length (z_positions (ts_spacetime ts))"
  shows "(h < 0
          \<and> (\<forall>i. i < length (z_positions (ts_spacetime ts)) \<longrightarrow> 0 < sing_dist ts theta h i)
          \<longrightarrow> expansion_on kind ts theta (h, dh) =
                Inr (dh,
                     2 * h - cot_term theta h dh
                     + 4 * h ^ 2 / (psi_sum ts theta h * C_factor h dh ^ 2)
                       * (dpsi_dr_sum ts theta h - dpsi_dtheta_sum ts theta h * dh / h ^ 2)
                     + 3 * dh ^ 2 / h))
         \<and> expansion_on PyFloat ts theta (0, dh) = Inl ZeroDivisionError
         \<and> expansion_on Float64 ts theta (0, dh) = Inl NonFinite"
  using expansion_on_closed_form[OF assms, of h kind theta dh] expansion_on_zero_radius(1)
    expansion_on_zero_radius(2)[OF assms]
  by simp

text \<open>
  On the Schwarzschild example at \<open>\<theta> = \<pi>/4\<close>, \<open>h' = 1\<close>: for \<open>h = -1\<close> the distance is 1
  and the value returned is \<open>(1, -13/3)\<close> for both element types; for \<open>h = 0\<close> the two
  element types give \<open>ZeroDivisionError\<close> and \<open>nan\<close>.
\<close>

theorem expansion_nonpositive_radius_witness:
  "(- 1 :: real) < 0
   \<and> sing_dist ts1 (pi / 4) (- 1) 0 = 1
   \<and> expansion_on PyFloat ts1 (pi / 4) (- 1, 1) = Inr (1, - 13 / 3)
   \<and> expansion_on Float64 ts1 (pi / 4) (- 1, 1) = Inr (1, - 13 / 3)
   \<and> expansion_on PyFloat ts1 (pi / 4) (0, 1) = Inl ZeroDivisionError
   \<and> expansion_on Float64 ts1 (pi / 4) (0, 1) = Inl NonFinite"
proof -
  have sd: "sing_dist ts1 (pi / 4) (- 1) 0 = 1"
    by (simp add: sing_dist_def ts1_simps cos_45 sin_45 power2_eq_square)
  have d: "\<forall>i. i < length (z_positions (ts_spacetime ts1))
             \<longrightarrow> 0 < sing_dist ts1 (pi / 4) (- 1) i"
    by (simp add: ts1_simps sd)
  have len: "length (masses (ts_spacetime ts1)) \<le> length (z_positions (ts_spacetime ts1))"
    by (simp add: ts1_simps)
  have neg: "(- 1 :: real) < 0" by simp
  have v: "expansion_on kind ts1 (pi / 4) (- 1, 1) = Inr (1, - 13 / 3)" for kind
    using expansion_nonpositive_radius[OF len, of "- 1" "pi / 4" kind 1] neg d pi_off_axis
    by (simp add: ts1_simps sd cot_term_def C_factor_def psi_sum_def dpsi_dr_sum_def
        dpsi_dtheta_sum_def tan_45 cos_45 power_divide)
  from expansion_nonpositive_radius[OF len, of 0 "pi / 4" Float64 1] v sd
  show ?thesis by simp
qed

text \<open>
  The claim as written fails: at the radius \<open>h = -1\<close> (and \<open>\<theta> = 0\<close>, \<open>h' = 0\<close>) on the
  Schwarzschild example the evaluation does not raise, it returns \<open>(0, -2/3)\<close>; and
  at \<open>h = 0\<close> a float64 state raises nothing either.
\<close>

theorem expansion_no_DomainError:
  "(- 1 :: real) \<le> 0
   \<and> expansion ts1 0 (- 1, 0) = Inr (0, - 2 / 3)
   \<and> \<not> (\<exists>e. expansion ts1 0 (- 1, 0) = Inl e)
   \<and> expansion_on PyFloat ts1 0 (- 1, 0) = Inr (0, - 2 / 3)
   \<and> (0 :: real) \<le> 0
   \<and> expansion ts1 0 (0, 1) = Inl NonFinite"
proof -
  have len: "length (masses (ts_spacetime ts1)) \<le> length (z_positions (ts_spacetime ts1))"
    by (simp add: ts1_simps)
  have nz: "(- 1 :: real) \<noteq> 0" by simp
  have "expansion_on kind ts1 0 (- 1, 0) = Inr (0, - 2 / 3)" for kind
    unfolding expansion_on_closed_form[OF len nz]
    by (simp add: ts1_simps sing_dist_def cot_term_def C_factor_def psi_sum_def
        dpsi_dr_sum_def dpsi_dtheta_sum_def)
  moreover have "expansion ts1 0 (0, 1) = Inl NonFinite"
    unfolding expansion_def by (rule expansion_on_zero_radius(2)[OF len])
  ultimately show ?thesis by (simp add: expansion_def)
qed

subsection \<open>The shooting objectives\<close>

text \<open>
  C2. For every scalar \<open>r0\<close> the symmetric objective is one run of the adaptive
  integrator on the expansion right-hand side, from \<open>\<theta> = 0\<close> with the state
  \<open>(h, h') = (r0, 0)\<close> to \<open>\<theta> = \<pi>/2\<close>, at absolute tolerance \<open>1e-8\<close> and relative
  tolerance \<open>1e-6\<close>; it returns the derivative component of the state the run ends in.
  An exception raised inside the run is passed on.
\<close>

theorem shooting_function_run:
  "shooting_function env ts r0 =
     (case dopri5 env (expansion ts) (1 / 10 ^ 8) (1 / 10 ^ 6) (r0, 0) 0 (pi / 2) of
        Inl e \<Rightarrow> Inl e
      | Inr (y, t, ok) \<Rightarrow> Inr (snd y))"
  by (simp add: shooting_function_def integrate_def ode_init_def Let_def
      split: sum.splits prod.splits)

text \<open>
  C3. For every 2-vector \<open>[r0_a, r0_b]\<close> the general objective runs the integrator
  from \<open>\<theta> = 0\<close> with the state \<open>(r0_a, 0)\<close> to \<open>\<pi>/2\<close>, runs it again, from the
  state \<open>(r0_b, 0)\<close> at \<open>\<theta> = \<pi>\<close> down to \<open>\<pi>/2\<close> (the second run takes nothing from the
  first), and returns the difference of the two terminal states, first minus second,
  component by component: both the value and the derivative enter the residual.
\<close>

theorem shooting_function_full_run:
  "pi / 2 < pi \<and>
   shooting_function_full env ts [r0_a, r0_b] =
     (case dopri5 env (expansion ts) (1 / 10 ^ 8) (1 / 10 ^ 6) (r0_a, 0) 0 (pi / 2) of
        Inl e \<Rightarrow> Inl e
      | Inr (y1, t1, ok1) \<Rightarrow>
          (case dopri5 env (expansion ts) (1 / 10 ^ 8) (1 / 10 ^ 6) (r0_b, 0) pi (pi / 2) of
             Inl e \<Rightarrow> Inl e
           | Inr (y2, t2, ok2) \<Rightarrow> Inr [fst y1 - fst y2, snd y1 - snd y2]))"
  by (simp add: shooting_function_full_def integrate_def ode_init_def Let_def
      split: sum.splits prod.splits)

subsection \<open>Evaluating the model with the Euler instance\<close>

lemma expansion_ts_r0: "expansion (ts\<lparr>ts_r0 := v\<rparr>) = expansion ts"
  by (rule ext)+ (simp add: expansion_def expansion_on_def)

lemma shooting_function_ts_r0:
  "shooting_function env (ts\<lparr>ts_r0 := v\<rparr>) = shooting_function env ts"
  by (rule ext) (simp add: shooting_function_def expansion_ts_r0)

lemma shooting_function_full_ts_r0:
  "shooting_function_full env (ts\<lparr>ts_r0 := v\<rparr>) = shooting_function_full env ts"
  by (rule ext) (unfold shooting_function_full_def expansion_ts_r0, rule refl)

lemma euler_env_simps:
  "dopri5 euler_env = euler_step" "root euler_env = root_no_budget"
  "brent_iter euler_env = midpoint_iter"
  by (simp_all add: euler_env_def)

lemma expansion_at_rest:
  assumes "length (masses (ts_spacetime ts)) \<le> length (z_positions (ts_spacetime ts))"
    and "r \<noteq> 0"
  shows "expansion ts theta (r, 0) = Inr (0, euler_slope ts theta r)"
  unfolding expansion_closed_form[OF assms]
  by (simp add: cot_term_def C_factor_def euler_slope_def)

lemma shooting_function_euler:
  assumes "length (masses (ts_spacetime ts)) \<le> length (z_positions (ts_spacetime ts))"
    and "r \<noteq> 0"
  shows "shooting_function euler_env ts r = Inr (pi / 2 * euler_slope ts 0 r)"
  by (simp add: shooting_function_def integrate_def ode_init_def euler_env_simps
      euler_step_def expansion_at_rest[OF assms])

lemma shooting_function_full_euler:
  assumes "length (masses (ts_spacetime ts)) \<le> length (z_positions (ts_spacetime ts))"
    and "a \<noteq> 0" and "b \<noteq> 0"
  shows "shooting_function_full euler_env ts [a, b] =
           Inr [a - b, pi / 2 * euler_slope ts 0 a + pi / 2 * euler_slope ts pi b]"
  by (simp add: shooting_function_full_def integrate_def ode_init_def euler_env_simps
      euler_step_def expansion_at_rest[OF assms(1,2)] expansion_at_rest[OF assms(1,3)]
      algebra_simps)

lemma sing_dist_axis:
  "sing_dist ts 0 h i = \<bar>h - (z_positions (ts_spacetime ts) ! i - ts_z_centre ts)\<bar>"
  "sing_dist ts pi h i = \<bar>h + (z_positions (ts_spacetime ts) ! i - ts_z_centre ts)\<bar>"
  by (simp_all add: sing_dist_def abs_minus_commute)

lemma euler_slope_ts1:
  "euler_slope ts1 0 (49 / 100) = - 49 / 4950"
  "euler_slope ts1 0 (51 / 100) = 51 / 5050"
  "euler_slope ts1 0 (1 / 100) = - 49 / 2550"
  "euler_slope ts1 0 (1 / 50) = - 12 / 325"
  by (simp_all add: euler_slope_def psi_sum_def dpsi_dr_sum_def sing_dist_axis ts1_simps power_divide)

lemma euler_slope_main0: "euler_slope ts_main 0 1 = - 38 / 21"
  by (simp add: euler_slope_def psi_sum_def dpsi_dr_sum_def sing_dist_axis ts_main_simps lessThan_Suc numeral_2_eq_2 power_divide)

lemma euler_slope_mainpi: "euler_slope ts_main pi 1 = - 38 / 21"
  by (simp add: euler_slope_def psi_sum_def dpsi_dr_sum_def sing_dist_axis ts_main_simps lessThan_Suc numeral_2_eq_2 power_divide)


lemma find_r0_symmetric:
  assumes "reflection_symmetric (ts_spacetime ts)" "\<not> full_horizon"
  shows "find_r0 env ts [lo, hi] full_horizon =
           (case brentq env (shooting_function env ts) lo hi of
              Inl e \<Rightarrow> (Some e, ts\<lparr>ts_r0 := Some []\<rparr>)
            | Inr r \<Rightarrow> (None, ts\<lparr>ts_r0 := Some [r]\<rparr>))"
  using assms by (simp add: find_r0_def shooting_function_ts_r0 split: sum.splits)

lemma find_r0_general:
  assumes "full_horizon \<or> \<not> reflection_symmetric (ts_spacetime ts)"
  shows "find_r0 env ts input_guess full_horizon =
           (case root env (shooting_function_full env ts) input_guess (1 / 10 ^ 12) of
              Inl e \<Rightarrow> (Some e, ts\<lparr>ts_r0 := Some []\<rparr>)
            | Inr sol \<Rightarrow> (None, ts\<lparr>ts_r0 := Some (sol_x sol)\<rparr>))"
  using assms by (auto simp add: find_r0_def shooting_function_full_ts_r0 split: sum.splits)

lemma brentq_euler_ts1_docstring:
  "brentq euler_env (shooting_function euler_env ts1) (49 / 100) (51 / 100) = Inr (1 / 2)"
  by (simp add: brentq_def shooting_function_euler ts1_simps euler_slope_ts1 euler_env_simps
      midpoint_iter_def mult_less_0_iff zero_less_mult_iff)

lemma root_euler_ts_main:
  "root euler_env (shooting_function_full euler_env ts_main) [1, 1] (1 / 10 ^ 12) =
     Inr \<lparr>sol_x = [1, 1], sol_success = False, sol_fun = [0, - (38 / 21) * pi]\<rparr>"
proof -
  have "\<not> 38 * pi / 21 \<le> 1 / 10 ^ 12"
    using pi_ge_two by simp
  then show ?thesis
    by (simp add: euler_env_simps root_no_budget_def shooting_function_full_euler ts_main_simps
      euler_slope_main0 euler_slope_mainpi)
qed

lemma root_no_budget_shape:
  "\<forall>f x0 tol sol. root euler_env f x0 tol = Inr sol \<longrightarrow> length (sol_x sol) = length x0"
  by (auto simp: euler_env_simps root_no_budget_def split: sum.splits)

lemma euler_slope_ts1_one:
  "euler_slope ts1 0 1 = 2 / 3" "euler_slope ts1 pi 1 = 2 / 3"
  by (simp_all add: euler_slope_def psi_sum_def dpsi_dr_sum_def sing_dist_axis ts1_simps)

lemma root_euler_ts1:
  "root euler_env (shooting_function_full euler_env ts1) [1, 1] (1 / 10 ^ 12) =
     Inr \<lparr>sol_x = [1, 1], sol_success = False, sol_fun = [0, 2 * pi / 3]\<rparr>"
proof -
  have "\<not> 2 * pi / 3 \<le> 1 / 10 ^ 12"
    using pi_ge_two by simp
  then show ?thesis
    by (simp add: euler_env_simps root_no_budget_def shooting_function_full_euler ts1_simps
      euler_slope_ts1_one)
qed

subsection \<open>The root-finding driver\<close>

text \<open>
  C4. For every call of \<open>find_r0\<close> with a two-element guess: the symmetric scalar
  objective with the bracketed solver \<open>brentq\<close> is used exactly when the spacetime's
  reflection-symmetry flag is set and \<open>full_horizon\<close> is not; in every other case the
  general vector objective with the multidimensional solver \<open>root\<close> is used. When the
  call returns, \<open>r0\<close> holds one radius in the symmetric mode and two in the general one
  (\<open>root\<close> answers a vector of the shape of its guess).
\<close>

theorem find_r0_mode:
  assumes "\<forall>f x0 tol sol. root env f x0 tol = Inr sol \<longrightarrow> length (sol_x sol) = length x0"
  shows "(if reflection_symmetric (ts_spacetime ts) \<and> \<not> full_horizon then
            find_r0 env ts [g0, g1] full_horizon =
              (case brentq env (shooting_function env ts) g0 g1 of
                 Inl e \<Rightarrow> (Some e, ts\<lparr>ts_r0 := Some []\<rparr>)
               | Inr r \<Rightarrow> (None, ts\<lparr>ts_r0 := Some [r]\<rparr>))
          else
            find_r0 env ts [g0, g1] full_horizon =
              (case root env (shooting_function_full env ts) [g0, g1] (1 / 10 ^ 12) of
                 Inl e \<Rightarrow> (Some e, ts\<lparr>ts_r0 := Some []\<rparr>)
               | Inr sol \<Rightarrow> (None, ts\<lparr>ts_r0 := Some (sol_x sol)\<rparr>)))
         \<and> (\<forall>ts'. find_r0 env ts [g0, g1] full_horizon = (None, ts') \<longrightarrow>
               (\<exists>r0. ts_r0 ts' = Some r0 \<and>
                  length r0 =
                    (if reflection_symmetric (ts_spacetime ts) \<and> \<not> full_horizon then 1 else 2)))"
proof (cases "reflection_symmetric (ts_spacetime ts) \<and> \<not> full_horizon")
  case True
  then have eq: "find_r0 env ts [g0, g1] full_horizon =
      (case brentq env (shooting_function env ts) g0 g1 of
         Inl e \<Rightarrow> (Some e, ts\<lparr>ts_r0 := Some []\<rparr>)
       | Inr r \<Rightarrow> (None, ts\<lparr>ts_r0 := Some [r]\<rparr>))"
    by (simp add: find_r0_symmetric)
  have "\<exists>r0. ts_r0 ts' = Some r0 \<and> length r0 = 1"
    if "find_r0 env ts [g0, g1] full_horizon = (None, ts')" for ts'
    using that unfolding eq by (auto split: sum.splits)
  then have len: "\<forall>ts'. find_r0 env ts [g0, g1] full_horizon = (None, ts') \<longrightarrow>
      (\<exists>r0. ts_r0 ts' = Some r0 \<and> length r0 = 1)"
    by blast
  show ?thesis
    unfolding if_P[OF True] by (intro conjI) (rule eq, rule len)
next
  case False
  then have gen: "full_horizon \<or> \<not> reflection_symmetric (ts_spacetime ts)" by blast
  have eq: "find_r0 env ts [g0, g1] full_horizon =
      (case root env (shooting_function_full env ts) [g0, g1] (1 / 10 ^ 12) of
         Inl e \<Rightarrow> (Some e, ts\<lparr>ts_r0 := Some []\<rparr>)
       | Inr sol \<Rightarrow> (None, ts\<lparr>ts_r0 := Some (sol_x sol)\<rparr>))"
    by (rule find_r0_general[OF gen])
  have "\<exists>r0. ts_r0 ts' = Some r0 \<and> length r0 = 2"
    if "find_r0 env ts [g0, g1] full_horizon = (None, ts')" for ts'
  proof (cases "root env (shooting_function_full env ts) [g0, g1] (1 / 10 ^ 12)")
    case (Inl e)
    with that show ?thesis unfolding eq by simp
  next
    case (Inr sol)
    with assms have "length (sol_x sol) = 2" by fastforce
    with that Inr show ?thesis unfolding eq by auto
  qed
  then have len: "\<forall>ts'. find_r0 env ts [g0, g1] full_horizon = (None, ts') \<longrightarrow>
      (\<exists>r0. ts_r0 ts' = Some r0 \<and> length r0 = 2)"
    by blast
  show ?thesis
    unfolding if_not_P[OF False] by (intro conjI) (rule eq, rule len)
qed

theorem find_r0_mode_witness:
  "find_r0 euler_env ts1 [49 / 100, 51 / 100] False = (None, ts1\<lparr>ts_r0 := Some [1 / 2]\<rparr>)
   \<and> find_r0 euler_env ts_main [1, 1] False = (None, ts_main\<lparr>ts_r0 := Some [1, 1]\<rparr>)
   \<and> find_r0 euler_env ts1 [1, 1] True = (None, ts1\<lparr>ts_r0 := Some [1, 1]\<rparr>)"
  using find_r0_mode[OF root_no_budget_shape, of ts1 False "49 / 100" "51 / 100"]
    find_r0_mode[OF root_no_budget_shape, of ts_main False 1 1]
    find_r0_mode[OF root_no_budget_shape, of ts1 True 1 1]
  by (simp add: ts1_simps ts_main_simps brentq_euler_ts1_docstring root_euler_ts_main
      euler_env_simps root_no_budget_def shooting_function_full_euler)

text \<open>
  C7. In the symmetric mode, when the objective has the same strict sign at both ends of
  the bracket \<open>[lo, hi]\<close>, \<open>find_r0\<close> raises the \<open>ValueError\<close> of \<open>brentq\<close> (the
  error kind the specification calls NoSignChangeInBracket) and stores no radius:
  \<open>r0\<close> is left as the empty list.
\<close>

theorem find_r0_no_sign_change:
  assumes "reflection_symmetric (ts_spacetime ts)" and "\<not> full_horizon"
    and "shooting_function env ts lo = Inr f_lo"
    and "shooting_function env ts hi = Inr f_hi"
    and "0 < f_lo * f_hi"
  shows "find_r0 env ts [lo, hi] full_horizon = (Some ValueError, ts\<lparr>ts_r0 := Some []\<rparr>)"
  unfolding find_r0_symmetric[OF assms(1,2)] using assms(3-5) by (simp add: brentq_def)

text \<open>
  The Schwarzschild example with the bracket \<open>[0.01, 0.02]\<close>, integrated by the Euler
  instance: the objective is negative at both ends.
\<close>

theorem find_r0_no_sign_change_witness:
  "reflection_symmetric (ts_spacetime ts1)
   \<and> shooting_function euler_env ts1 (1 / 100) = Inr (pi / 2 * (- 49 / 2550))
   \<and> shooting_function euler_env ts1 (2 / 100) = Inr (pi / 2 * (- 12 / 325))
   \<and> find_r0 euler_env ts1 [1 / 100, 2 / 100] False = (Some ValueError, ts1\<lparr>ts_r0 := Some []\<rparr>)"
proof -
  have sym: "reflection_symmetric (ts_spacetime ts1)" by (simp add: ts1_simps)
  have lo: "shooting_function euler_env ts1 (1 / 100) = Inr (pi / 2 * (- 49 / 2550))"
    by (simp add: shooting_function_euler ts1_simps euler_slope_ts1)
  have hi: "shooting_function euler_env ts1 (2 / 100) = Inr (pi / 2 * (- 12 / 325))"
    by (simp add: shooting_function_euler ts1_simps euler_slope_ts1)
  have pos: "0 < pi / 2 * (- 49 / 2550) * (pi / 2 * (- 12 / 325))"
    by (simp add: zero_less_mult_iff)
  have nf: "\<not> False" by simp
  from find_r0_no_sign_change[OF sym nf lo hi pos] sym lo hi show ?thesis by simp
qed

text \<open>
  C8 (as amended). \<open>find_r0\<close> never looks at \<open>sol.success\<close>: in the general mode, when
  \<open>root\<close> answers without having converged, \<open>find_r0\<close> raises nothing and stores the
  answer's \<open>sol.x\<close> as \<open>r0\<close>; the residual \<open>sol.fun\<close> and the flag are dropped.
\<close>

theorem find_r0_keeps_unconverged:
  assumes "full_horizon \<or> \<not> reflection_symmetric (ts_spacetime ts)"
    and "root env (shooting_function_full env ts) input_guess (1 / 10 ^ 12) = Inr sol"
    and "\<not> sol_success sol"
  shows "find_r0 env ts input_guess full_horizon = (None, ts\<lparr>ts_r0 := Some (sol_x sol)\<rparr>)"
  unfolding find_r0_general[OF assms(1)] using assms(2) by simp

theorem find_r0_keeps_unconverged_witness:
  "root euler_env (shooting_function_full euler_env ts1) [1, 1] (1 / 10 ^ 12) =
     Inr \<lparr>sol_x = [1, 1], sol_success = False, sol_fun = [0, 2 * pi / 3]\<rparr>
   \<and> find_r0 euler_env ts1 [1, 1] True = (None, ts1\<lparr>ts_r0 := Some [1, 1]\<rparr>)"
  using find_r0_keeps_unconverged[of True ts1 euler_env "[1, 1]", OF _ root_euler_ts1]
    root_euler_ts1
  by simp

text \<open>
  The claim as written fails on the module's own \<open>__main__\<close> example, two unit masses
  at \<open>\<plusminus>0.5\<close> with the guess \<open>[1, 1]\<close>: a root solver that gives up with the residual
  \<open>[0, -38\<pi>/21]\<close> has its guess stored as \<open>r0\<close>, and \<open>find_r0\<close> reports no error.
\<close>

theorem find_r0_unconverged_counterexample:
  "root euler_env (shooting_function_full euler_env ts_main) [1, 1] (1 / 10 ^ 12) =
     Inr \<lparr>sol_x = [1, 1], sol_success = False, sol_fun = [0, - (38 / 21) * pi]\<rparr>
   \<and> find_r0 euler_env ts_main [1, 1] False = (None, ts_main\<lparr>ts_r0 := Some [1, 1]\<rparr>)"
proof -
  have gen: "False \<or> \<not> reflection_symmetric (ts_spacetime ts_main)"
    by (simp add: ts_main_simps)
  show ?thesis
    unfolding find_r0_general[OF gen] root_euler_ts_main by simp
qed

subsection \<open>The sampling loops\<close>

lemma forward_run_step:
  assumes "forward_run env f ys th" "k < 50"
  shows "th ! k < pi / 2"
    and "dopri5 env f (1 / 10 ^ 8) (1 / 10 ^ 6) (ys ! k) (th ! k) (th ! k + dtheta)
           = Inr (ys ! Suc k, th ! Suc k, True)"
  using assms unfolding forward_run_def list_all_iff by (simp_all del: upt_rec_numeral)

lemma backward_run_step:
  assumes "backward_run env f ys th" "k < 50"
  shows "pi / 2 + 1 / 10 ^ 12 \<le> th ! k"
    and "dopri5 env f (1 / 10 ^ 8) (1 / 10 ^ 6) (ys ! k) (th ! k) (th ! k - dtheta)
           = Inr (ys ! Suc k, th ! Suc k, True)"
  using assms unfolding backward_run_def list_all_iff by (simp_all del: upt_rec_numeral)

lemma integrate_step:
  assumes "dopri5 env (ode_f s) (ode_atol s) (ode_rtol s) (ode_y s) (ode_t s) t1 = Inr (y, t, ok)"
  shows "integrate env s t1 = Inr (s\<lparr>ode_y := y, ode_t := t, ode_success := ok\<rparr>)"
  using assms by (simp add: integrate_def)

lemma forward_loop_run:
  assumes "forward_run env f ys th"
    and "ode_f s = f" "ode_atol s = 1 / 10 ^ 8" "ode_rtol s = 1 / 10 ^ 6"
    and "ode_success s" "ode_t s = th ! k" "ode_y s = ys ! k" "k \<le> 50"
  shows "forward_loop env s H1 th1 =
           Some (Inr (H1 @ map (\<lambda>j. ys ! j) [Suc k..<51],
                      th1 @ map (\<lambda>j. th ! j) [Suc k..<51]))"
  using assms(2-)
proof (induction "50 - k" arbitrary: k s H1 th1)
  case 0
  then have k: "k = 50" by simp
  have "pi / 2 \<le> th ! 50"
    using assms(1) by (simp add: forward_run_def)
  then have "\<not> ode_t s < pi / 2"
    unfolding "0.prems"(5) k by simp
  then show ?case
    by (subst forward_loop.simps) (simp add: k)
next
  case (Suc d)
  then have klt: "k < 50" and d: "d = 50 - Suc k" by linarith+
  have "ode_t s < pi / 2"
    unfolding Suc.prems(5) by (rule forward_run_step(1)[OF assms(1) klt])
  then have cond: "successful s \<and> ode_t s < pi / 2"
    using Suc.prems by (simp add: successful_def)
  let ?s' = "s\<lparr>ode_y := ys ! Suc k, ode_t := th ! Suc k, ode_success := True\<rparr>"
  have step: "integrate env s (ode_t s + dtheta) = Inr ?s'"
  proof (rule integrate_step)
    show "dopri5 env (ode_f s) (ode_atol s) (ode_rtol s) (ode_y s) (ode_t s) (ode_t s + dtheta) =
        Inr (ys ! Suc k, th ! Suc k, True)"
      unfolding Suc.prems(1,2,3,5,6) by (rule forward_run_step(2)[OF assms(1) klt])
  qed
  have rec: "forward_loop env ?s' (H1 @ [ys ! Suc k]) (th1 @ [th ! Suc k]) =
      Some (Inr ((H1 @ [ys ! Suc k]) @ map (\<lambda>j. ys ! j) [Suc (Suc k)..<51],
                 (th1 @ [th ! Suc k]) @ map (\<lambda>j. th ! j) [Suc (Suc k)..<51]))"
    using klt Suc.prems(1-3) by (intro Suc.hyps(1)[OF d]) simp_all
  have upt: "[Suc k..<51] = Suc k # [Suc (Suc k)..<51]"
    using klt by (simp add: upt_conv_Cons del: upt_rec_numeral)
  show ?case
    apply (subst forward_loop.simps)
    using cond step rec by (simp add: upt del: upt_rec_numeral)
qed

lemma backward_loop_run:
  assumes "backward_run env f ys th"
    and "ode_f s = f" "ode_atol s = 1 / 10 ^ 8" "ode_rtol s = 1 / 10 ^ 6"
    and "ode_success s" "ode_t s = th ! k" "ode_y s = ys ! k" "k \<le> 50"
  shows "backward_loop env s H2 th2 =
           Some (Inr (H2 @ map (\<lambda>j. ys ! j) [Suc k..<51],
                      th2 @ map (\<lambda>j. th ! j) [Suc k..<51]))"
  using assms(2-)
proof (induction "50 - k" arbitrary: k s H2 th2)
  case 0
  then have k: "k = 50" by simp
  have "th ! 50 < pi / 2 + 1 / 10 ^ 12"
    using assms(1) by (simp add: backward_run_def)
  then have "\<not> ode_t s \<ge> pi / 2 + 1 / 10 ^ 12"
    unfolding "0.prems"(5) k by simp
  then show ?case
    by (subst backward_loop.simps) (simp add: k)
next
  case (Suc d)
  then have klt: "k < 50" and d: "d = 50 - Suc k" by linarith+
  have "ode_t s \<ge> pi / 2 + 1 / 10 ^ 12"
    unfolding Suc.prems(5) by (rule backward_run_step(1)[OF assms(1) klt])
  then have cond: "successful s \<and> ode_t s \<ge> pi / 2 + 1 / 10 ^ 12"
    using Suc.prems by (simp add: successful_def)
  let ?s' = "s\<lparr>ode_y := ys ! Suc k, ode_t := th ! Suc k, ode_success := True\<rparr>"
  have step: "integrate env s (ode_t s - dtheta) = Inr ?s'"
  proof (rule integrate_step)
    show "dopri5 env (ode_f s) (ode_atol s) (ode_rtol s) (ode_y s) (ode_t s) (ode_t s - dtheta) =
        Inr (ys ! Suc k, th ! Suc k, True)"
      unfolding Suc.prems(1,2,3,5,6) by (rule backward_run_step(2)[OF assms(1) klt])
  qed
  have rec: "backward_loop env ?s' (H2 @ [ys ! Suc k]) (th2 @ [th ! Suc k]) =
      Some (Inr ((H2 @ [ys ! Suc k]) @ map (\<lambda>j. ys ! j) [Suc (Suc k)..<51],
                 (th2 @ [th ! Suc k]) @ map (\<lambda>j. th ! j) [Suc (Suc k)..<51]))"
    using klt Suc.prems(1-3) by (intro Suc.hyps(1)[OF d]) simp_all
  have upt: "[Suc k..<51] = Suc k # [Suc (Suc k)..<51]"
    using klt by (simp add: upt_conv_Cons del: upt_rec_numeral)
  show ?case
    apply (subst backward_loop.simps)
    using cond step rec by (simp add: upt del: upt_rec_numeral)
qed

lemma mirror_nth:
  assumes "length H1 = length th1" "k < length th1"
  shows "(th1 @ rev (map (\<lambda>t. pi - t) th1)) ! (2 * length th1 - 1 - k) = pi - th1 ! k"
    and "(H1 @ rev H1) ! (2 * length th1 - 1 - k) = H1 ! k"
    and "(th1 @ rev (map (\<lambda>t. pi - t) th1)) ! k = th1 ! k"
    and "(H1 @ rev H1) ! k = H1 ! k"
proof -
  let ?n = "length th1"
  let ?m = "?n - 1 - k"
  have i: "2 * ?n - 1 - k = ?n + ?m" and m: "?m < ?n" and mk: "?n - Suc ?m = k"
    using assms(2) by linarith+
  have "(th1 @ rev (map (\<lambda>t. pi - t) th1)) ! (?n + ?m) = rev (map (\<lambda>t. pi - t) th1) ! ?m"
    by (rule nth_append_length_plus)
  also have "\<dots> = map (\<lambda>t. pi - t) th1 ! k"
    using m mk by (simp add: rev_nth del: rev_map)
  also have "\<dots> = pi - th1 ! k"
    using assms(2) by simp
  finally show "(th1 @ rev (map (\<lambda>t. pi - t) th1)) ! (2 * ?n - 1 - k) = pi - th1 ! k"
    by (simp only: i)
  have "(H1 @ rev H1) ! (length H1 + ?m) = rev H1 ! ?m"
    by (rule nth_append_length_plus)
  also have "\<dots> = H1 ! k"
    using m mk assms(1) by (simp add: rev_nth)
  finally show "(H1 @ rev H1) ! (2 * ?n - 1 - k) = H1 ! k"
    by (simp only: i assms(1))
  show "(th1 @ rev (map (\<lambda>t. pi - t) th1)) ! k = th1 ! k"
    using assms(2) by (simp add: nth_append)
  show "(H1 @ rev H1) ! k = H1 ! k"
    using assms by (simp add: nth_append)
qed

lemma ts_theta_fill_remaining:
  "ts_theta (fill_remaining ts H T) = Some (T @ map (\<lambda>t. t + pi) T)"
  by (simp add: fill_remaining_def)

lemma assembled_theta:
  fixes a b :: "real list"
  assumes "length a = 51" "length b = 51"
  shows "length ((a @ rev b) @ map (\<lambda>t. t + pi) (a @ rev b)) = 204"
    and "((a @ rev b) @ map (\<lambda>t. t + pi) (a @ rev b)) ! 0 = a ! 0"
    and "((a @ rev b) @ map (\<lambda>t. t + pi) (a @ rev b)) ! 50 = a ! 50"
    and "((a @ rev b) @ map (\<lambda>t. t + pi) (a @ rev b)) ! 51 = b ! 50"
    and "((a @ rev b) @ map (\<lambda>t. t + pi) (a @ rev b)) ! 101 = b ! 0"
    and "((a @ rev b) @ map (\<lambda>t. t + pi) (a @ rev b)) ! 102 = a ! 0 + pi"
    and "last ((a @ rev b) @ map (\<lambda>t. t + pi) (a @ rev b)) = b ! 0 + pi"
proof -
  have ne: "a \<noteq> []" "b \<noteq> []" using assms by auto
  show "length ((a @ rev b) @ map (\<lambda>t. t + pi) (a @ rev b)) = 204"
    using assms by simp
  show "((a @ rev b) @ map (\<lambda>t. t + pi) (a @ rev b)) ! 0 = a ! 0"
    "((a @ rev b) @ map (\<lambda>t. t + pi) (a @ rev b)) ! 50 = a ! 50"
    "((a @ rev b) @ map (\<lambda>t. t + pi) (a @ rev b)) ! 51 = b ! 50"
    "((a @ rev b) @ map (\<lambda>t. t + pi) (a @ rev b)) ! 101 = b ! 0"
    "((a @ rev b) @ map (\<lambda>t. t + pi) (a @ rev b)) ! 102 = a ! 0 + pi"
    using assms by (simp_all add: nth_append rev_nth)
  show "last ((a @ rev b) @ map (\<lambda>t. t + pi) (a @ rev b)) = b ! 0 + pi"
    using ne by (simp add: last_map last_rev hd_conv_nth)
qed

text \<open>
  The loop invariant of \<open>forward_loop\<close>, whatever the integrator: the samples already
  stored are kept, each further sample is what one call of the integrator returns from
  the sample before it, and the loop goes on after a sample exactly when the call that
  produced it succeeded and its angle is below \<open>\<pi>/2\<close>.
\<close>

lemma forward_loop_trace_aux:
  assumes "forward_loop env s H1 th1 = Some y"
  shows "\<forall>H th. y = Inr (H, th) \<longrightarrow> H1 \<noteq> [] \<longrightarrow> length H1 = length th1 \<longrightarrow>
           ode_y s = last H1 \<longrightarrow> ode_t s = last th1 \<longrightarrow>
           length H = length th \<and> length H1 \<le> length H
           \<and> take (length H1) H = H1 \<and> take (length H1) th = th1
           \<and> ((ode_success s \<and> ode_t s < pi / 2) = (length H1 < length H))
           \<and> (\<forall>k. length H1 \<le> Suc k \<and> Suc k < length H \<longrightarrow>
                 (\<exists>ok. dopri5 env (ode_f s) (ode_atol s) (ode_rtol s) (H ! k) (th ! k)
                          (th ! k + dtheta) = Inr (H ! Suc k, th ! Suc k, ok)
                        \<and> ((ok \<and> th ! Suc k < pi / 2) = (Suc (Suc k) < length H))))"
  using assms
proof (induction env s H1 th1 y rule: forward_loop.raw_induct[rotated 1, consumes 1])
  case (1 loop env s H1 th1 y)
  show ?case
  proof (intro allI impI)
    fix H th
    assume y: "y = Inr (H, th)" and ne: "H1 \<noteq> []" and len: "length H1 = length th1"
      and sy: "ode_y s = last H1" and st: "ode_t s = last th1"
    let ?n = "length H1"
    let ?step = "\<lambda>k. \<exists>ok. dopri5 env (ode_f s) (ode_atol s) (ode_rtol s) (H ! k) (th ! k)
                          (th ! k + dtheta) = Inr (H ! Suc k, th ! Suc k, ok)
                        \<and> ((ok \<and> th ! Suc k < pi / 2) = (Suc (Suc k) < length H))"
    show "length H = length th \<and> ?n \<le> length H
           \<and> take ?n H = H1 \<and> take ?n th = th1
           \<and> ((ode_success s \<and> ode_t s < pi / 2) = (?n < length H))
           \<and> (\<forall>k. ?n \<le> Suc k \<and> Suc k < length H \<longrightarrow> ?step k)"
    proof (cases "successful s \<and> ode_t s < pi / 2")
      case False
      with "1.hyps" y have "H = H1" "th = th1" by auto
      then show ?thesis using len False by (auto simp: successful_def)
    next
      case True
      show ?thesis
      proof (cases "integrate env s (ode_t s + dtheta)")
        case (Inl e)
        with True "1.hyps" y show ?thesis by simp
      next
        case (Inr s')
        obtain y' t' ok where
          d: "dopri5 env (ode_f s) (ode_atol s) (ode_rtol s) (ode_y s) (ode_t s)
                (ode_t s + dtheta) = Inr (y', t', ok)" and
          s': "s' = s\<lparr>ode_y := y', ode_t := t', ode_success := ok\<rparr>"
          using Inr by (auto simp: integrate_def split: sum.splits)
        have rec: "loop env s' (H1 @ [y']) (th1 @ [t']) = Some y"
          using True "1.hyps" Inr s' by simp
        have IH: "length H = length th \<and> Suc ?n \<le> length H
           \<and> take (Suc ?n) H = H1 @ [y'] \<and> take (Suc ?n) th = th1 @ [t']
           \<and> ((ok \<and> t' < pi / 2) = (Suc ?n < length H))
           \<and> (\<forall>k. Suc ?n \<le> Suc k \<and> Suc k < length H \<longrightarrow> ?step k)"
          using "1.IH"[OF rec] y len by (auto simp: s')
        then have lenH: "length H = length th" "Suc ?n \<le> length H"
          and tH: "take (Suc ?n) H = H1 @ [y']" and tth: "take (Suc ?n) th = th1 @ [t']"
          and cont: "(ok \<and> t' < pi / 2) = (Suc ?n < length H)"
          and later: "\<forall>k. Suc ?n \<le> Suc k \<and> Suc k < length H \<longrightarrow> ?step k"
          by blast+
        have nthH: "H ! i = (H1 @ [y']) ! i" if "i \<le> ?n" for i
          using that nth_take[of i "Suc ?n" H] tH by simp
        have nthth: "th ! i = (th1 @ [t']) ! i" if "i \<le> ?n" for i
          using that nth_take[of i "Suc ?n" th] tth by simp
        have "take ?n H = take ?n (take (Suc ?n) H)" by simp
        also have "\<dots> = H1" unfolding tH by simp
        finally have t1: "take ?n H = H1" .
        have "take ?n th = take ?n (take (Suc ?n) th)" by simp
        also have "\<dots> = th1" unfolding tth using len by simp
        finally have t2: "take ?n th = th1" .
        have npos: "0 < ?n" using ne by simp
        have first: "?step (?n - 1)"
        proof -
          have "H ! (?n - 1) = ode_y s" "th ! (?n - 1) = ode_t s"
            using nthH[of "?n - 1"] nthth[of "?n - 1"] npos ne len sy st
            by (simp_all add: nth_append last_conv_nth)
          moreover have "H ! Suc (?n - 1) = y'" "th ! Suc (?n - 1) = t'"
            using nthH[of ?n] nthth[of ?n] npos len by (simp_all add: nth_append)
          moreover have "Suc (Suc (?n - 1)) = Suc ?n" using npos by simp
          ultimately show ?thesis using d cont by auto
        qed
        have steps: "?step k" if "?n \<le> Suc k" "Suc k < length H" for k
        proof (cases "Suc k = ?n")
          case True
          then have "k = ?n - 1" by simp
          with first show ?thesis by simp
        next
          case False
          with that have "Suc ?n \<le> Suc k" by simp
          with later that show ?thesis by blast
        qed
        have start: "(ode_success s \<and> ode_t s < pi / 2) = (?n < length H)"
          using True lenH(2) by (simp add: successful_def)
        from lenH t1 t2 start steps show ?thesis by auto
      qed
    qed
  qed
qed

lemma forward_loop_trace:
  assumes "forward_loop env (ode_init f atol rtol y0 t0) [y0] [t0] = Some (Inr (H, th))"
  shows "length H = length th" "H \<noteq> []" "H ! 0 = y0" "th ! 0 = t0"
    "(t0 < pi / 2) = (1 < length H)"
    "\<forall>k. Suc k < length H \<longrightarrow>
       (\<exists>ok. dopri5 env f atol rtol (H ! k) (th ! k) (th ! k + dtheta)
              = Inr (H ! Suc k, th ! Suc k, ok)
            \<and> ((ok \<and> th ! Suc k < pi / 2) = (Suc (Suc k) < length H)))"
proof -
  let ?s = "ode_init f atol rtol y0 t0"
  have p: "[y0] \<noteq> []" "length [y0] = length [t0]" "ode_y ?s = last [y0]"
    "ode_t ?s = last [t0]"
    by (simp_all add: ode_init_def)
  have sel: "ode_f ?s = f" "ode_atol ?s = atol" "ode_rtol ?s = rtol"
    "ode_success ?s = True" "ode_t ?s = t0"
    by (simp_all add: ode_init_def)
  note raw = forward_loop_trace_aux[OF assms, rule_format, OF refl p, unfolded sel]
  from raw have l: "length H = length th" and n: "length [y0] \<le> length H"
    and tH: "take (length [y0]) H = [y0]" and tth: "take (length [y0]) th = [t0]"
    and c: "(True \<and> t0 < pi / 2) = (length [y0] < length H)"
    and later: "\<forall>k. length [y0] \<le> Suc k \<and> Suc k < length H \<longrightarrow>
                 (\<exists>ok. dopri5 env f atol rtol (H ! k) (th ! k)
                          (th ! k + dtheta) = Inr (H ! Suc k, th ! Suc k, ok)
                        \<and> ((ok \<and> th ! Suc k < pi / 2) = (Suc (Suc k) < length H)))"
    by blast+
  show "length H = length th" by (rule l)
  from n show "H \<noteq> []" by auto
  from tH tth have "take 1 H = [y0]" "take 1 th = [t0]" by simp_all
  then show "H ! 0 = y0" "th ! 0 = t0"
    by (metis nth_take zero_less_one nth_Cons_0)+
  from c show "(t0 < pi / 2) = (1 < length H)" by simp
  show "\<forall>k. Suc k < length H \<longrightarrow>
       (\<exists>ok. dopri5 env f atol rtol (H ! k) (th ! k) (th ! k + dtheta)
              = Inr (H ! Suc k, th ! Suc k, ok)
            \<and> ((ok \<and> th ! Suc k < pi / 2) = (Suc (Suc k) < length H)))"
  proof (intro allI impI)
    fix k
    assume k: "Suc k < length H"
    then have "length [y0] \<le> Suc k \<and> Suc k < length H" by simp
    then show "\<exists>ok. dopri5 env f atol rtol (H ! k) (th ! k) (th ! k + dtheta)
              = Inr (H ! Suc k, th ! Suc k, ok)
            \<and> ((ok \<and> th ! Suc k < pi / 2) = (Suc (Suc k) < length H))"
      by (rule later[rule_format])
  qed
qed

lemma solve_given_r0_symmetric_shape:
  assumes "reflection_symmetric (ts_spacetime ts)" "\<not> full_horizon"
    and "solve_given_r0 env ts full_horizon = Some (Inr ts')"
  shows "\<exists>r0 H1 theta1. ts_r0 ts = Some r0
           \<and> forward_loop env (ode_init (expansion ts) (1 / 10 ^ 8) (1 / 10 ^ 6) (r0 ! 0, 0) 0)
                 [(r0 ! 0, 0)] [0] = Some (Inr (H1, theta1))
           \<and> ts' = fill_remaining ts (H1 @ rev H1) (theta1 @ rev (map (\<lambda>t. pi - t) theta1))"
  using assms
  by (auto simp: solve_given_r0_def Let_def split: option.splits sum.splits if_splits)

lemma trajectory_51:
  assumes "length ys = 51"
  shows "[ys ! 0] @ map (\<lambda>j. ys ! j) [Suc 0..<51] = ys"
proof -
  have up: "[0..<51] = 0 # [Suc 0..<51]"
    by (simp add: upt_conv_Cons del: upt_rec_numeral)
  have "map (\<lambda>j. ys ! j) [0..<51] = ys"
    using map_nth[of ys] assms by simp
  then show ?thesis
    by (subst (asm) up) simp
qed

lemma solve_given_r0_runs:
  assumes "ts_r0 ts = Some r0" and "1 \<le> length r0"
    and "forward_run env (expansion ts) ys th1" and "ys ! 0 = (r0 ! 0, 0)"
    and "full_horizon \<or> \<not> reflection_symmetric (ts_spacetime ts) \<Longrightarrow>
           2 \<le> length r0 \<and> backward_run env (expansion ts) ws th2 \<and> ws ! 0 = (r0 ! 1, 0)"
  shows "\<exists>ts' theta. solve_given_r0 env ts full_horizon = Some (Inr ts')
           \<and> ts_theta ts' = Some theta
           \<and> length theta = 204 \<and> theta ! 0 = 0 \<and> last theta = 2 * pi
           \<and> theta ! 101 = pi \<and> theta ! 102 = pi \<and> theta ! 50 = th1 ! 50
           \<and> theta ! 51 = (if full_horizon \<or> \<not> reflection_symmetric (ts_spacetime ts)
                            then th2 ! 50 else pi - th1 ! 50)"
proof -
  let ?s1 = "ode_init (expansion ts) (1 / 10 ^ 8) (1 / 10 ^ 6) (r0 ! 0, 0) 0"
  let ?s2 = "ode_init (expansion ts) (1 / 10 ^ 8) (1 / 10 ^ 6) (r0 ! 1, 0) pi"
  have len1: "\<not> length r0 < 1"
    using assms(2) by linarith
  have leny: "length ys = 51" and lent: "length th1 = 51" and t0: "th1 ! 0 = 0"
    using assms(3) by (simp_all add: forward_run_def)
  have "forward_loop env ?s1 [(r0 ! 0, 0)] [0] =
      Some (Inr ([(r0 ! 0, 0)] @ map (\<lambda>j. ys ! j) [Suc 0..<51],
                 [0] @ map (\<lambda>j. th1 ! j) [Suc 0..<51]))"
    by (rule forward_loop_run[OF assms(3), where k = 0])
       (simp_all add: ode_init_def assms(4) t0)
  moreover from trajectory_51[OF leny]
  have "[(r0 ! 0, 0)] @ map (\<lambda>j. ys ! j) [Suc 0..<51] = ys"
    unfolding assms(4) .
  moreover from trajectory_51[OF lent]
  have "[0] @ map (\<lambda>j. th1 ! j) [Suc 0..<51] = th1"
    unfolding t0 .
  ultimately have fwd: "forward_loop env ?s1 [(r0 ! 0, 0)] [0] = Some (Inr (ys, th1))"
    by (simp only:)
  show ?thesis
  proof (cases "full_horizon \<or> \<not> reflection_symmetric (ts_spacetime ts)")
    case False
    let ?b = "map (\<lambda>t. pi - t) th1"
    let ?theta = "(th1 @ rev ?b) @ map (\<lambda>t. t + pi) (th1 @ rev ?b)"
    have lb: "length ?b = 51" using lent by simp
    have b: "?b ! 0 = pi" "?b ! 50 = pi - th1 ! 50"
      using lent t0 by simp_all
    have "solve_given_r0 env ts full_horizon =
        Some (Inr (fill_remaining ts (ys @ rev ys) (th1 @ rev ?b)))"
      unfolding solve_given_r0_def Let_def
      by (simp only: assms(1) option.case if_not_P[OF False] if_not_P[OF len1] fwd
          sum.case prod.case)
    then have run: "solve_given_r0 env ts full_horizon =
        Some (Inr (fill_remaining ts (ys @ rev ys) (th1 @ rev ?b)))"
      and th: "ts_theta (fill_remaining ts (ys @ rev ys) (th1 @ rev ?b)) = Some ?theta"
      by (simp_all only: ts_theta_fill_remaining append_assoc)
    note f = assembled_theta[OF lent lb, unfolded b t0]
    have "length ?theta = 204 \<and> ?theta ! 0 = 0 \<and> last ?theta = 2 * pi
           \<and> ?theta ! 101 = pi \<and> ?theta ! 102 = pi \<and> ?theta ! 50 = th1 ! 50
           \<and> ?theta ! 51 = pi - th1 ! 50"
      using f by simp
    with run th False show ?thesis
      by (intro exI[of _ "fill_remaining ts (ys @ rev ys) (th1 @ rev ?b)"] exI[of _ ?theta])
         simp
  next
    case True
    from assms(5)[OF True] have len2: "\<not> length r0 < 2"
      and run2: "backward_run env (expansion ts) ws th2" and w0: "ws ! 0 = (r0 ! 1, 0)"
      by simp_all
    have lenw: "length ws = 51" and lent2: "length th2 = 51" and p0: "th2 ! 0 = pi"
      using run2 by (simp_all add: backward_run_def)
    let ?theta = "(th1 @ rev th2) @ map (\<lambda>t. t + pi) (th1 @ rev th2)"
    have "backward_loop env ?s2 [(r0 ! 1, 0)] [pi] =
        Some (Inr ([(r0 ! 1, 0)] @ map (\<lambda>j. ws ! j) [Suc 0..<51],
                   [pi] @ map (\<lambda>j. th2 ! j) [Suc 0..<51]))"
      by (rule backward_loop_run[OF run2, where k = 0])
         (simp_all add: ode_init_def w0 p0)
    moreover from trajectory_51[OF lenw]
    have "[(r0 ! 1, 0)] @ map (\<lambda>j. ws ! j) [Suc 0..<51] = ws"
      unfolding w0 .
    moreover from trajectory_51[OF lent2]
    have "[pi] @ map (\<lambda>j. th2 ! j) [Suc 0..<51] = th2"
      unfolding p0 .
    ultimately have bwd: "backward_loop env ?s2 [(r0 ! 1, 0)] [pi] = Some (Inr (ws, th2))"
      by (simp only:)
    have "solve_given_r0 env ts full_horizon =
        Some (Inr (fill_remaining ts (ys @ rev ws) (th1 @ rev th2)))"
      unfolding solve_given_r0_def Let_def
      by (simp only: assms(1) option.case if_P[OF True] if_not_P[OF len1] if_not_P[OF len2]
          fwd bwd sum.case prod.case)
    then have run: "solve_given_r0 env ts full_horizon =
        Some (Inr (fill_remaining ts (ys @ rev ws) (th1 @ rev th2)))"
      and th: "ts_theta (fill_remaining ts (ys @ rev ws) (th1 @ rev th2)) = Some ?theta"
      by (simp_all only: ts_theta_fill_remaining append_assoc)
    note f = assembled_theta[OF lent lent2, unfolded p0 t0]
    have "length ?theta = 204 \<and> ?theta ! 0 = 0 \<and> last ?theta = 2 * pi
           \<and> ?theta ! 101 = pi \<and> ?theta ! 102 = pi \<and> ?theta ! 50 = th1 ! 50
           \<and> ?theta ! 51 = th2 ! 50"
      using f by simp
    with run th True show ?thesis
      by (intro exI[of _ "fill_remaining ts (ys @ rev ws) (th1 @ rev th2)"] exI[of _ ?theta])
         simp
  qed
qed

lemma resolved_simps:
  "ts_r0 ts1_resolved = Some [1 / 2]" "ts_spacetime ts1_resolved = schwarzschild"
  "ts_z_centre ts1_resolved = 0"
  "ts_r0 ts1_full_resolved = Some [1 / 2, 1 / 2]" "ts_spacetime ts1_full_resolved = schwarzschild"
  "ts_z_centre ts1_full_resolved = 0"
  by (simp_all add: ts1_resolved_def ts1_full_resolved_def ts1_simps)

text \<open>
  The Schwarzschild horizon \<open>h = 1/2\<close> is a fixed point of the right-hand side, so the
  Euler instance holds it at every step.
\<close>

lemma schwarzschild_horizon_at_rest:
  assumes "ts_spacetime ts = schwarzschild" "ts_z_centre ts = 0"
  shows "expansion ts theta (1 / 2, 0) = Inr (0, 0)"
proof -
  have len: "length (masses (ts_spacetime ts)) \<le> length (z_positions (ts_spacetime ts))"
    by (simp add: assms ts1_simps)
  have "(1 / 2 * sin theta)\<^sup>2 + (1 / 2 * cos theta)\<^sup>2 = (1 / 2)\<^sup>2 * ((sin theta)\<^sup>2 + (cos theta)\<^sup>2)"
    unfolding power_mult_distrib by (rule distrib_left[symmetric])
  also have "\<dots> = (1 / 2)\<^sup>2"
    unfolding sin_cos_squared_add by simp
  finally have "(1 / 2 * sin theta)\<^sup>2 + (1 / 2 * cos theta)\<^sup>2 = (1 / 2)\<^sup>2" .
  then have sd: "sing_dist ts theta (1 / 2) 0 = 1 / 2"
    unfolding sing_dist_def assms ts1_simps by (simp add: real_sqrt_divide)
  have "euler_slope ts theta (1 / 2) = 0"
    by (simp add: euler_slope_def psi_sum_def dpsi_dr_sum_def sd assms ts1_simps power_divide)
  then show ?thesis
    using expansion_at_rest[OF len, of "1 / 2" theta] by simp
qed

lemma euler_holds_horizon:
  assumes "ts_spacetime ts = schwarzschild" "ts_z_centre ts = 0"
  shows "dopri5 euler_env (expansion ts) atol rtol (1 / 2, 0) t t1 = Inr ((1 / 2, 0), t1, True)"
  by (simp add: euler_env_simps euler_step_def schwarzschild_horizon_at_rest[OF assms])

lemma angles_simps:
  "length up_angles = 51" "length down_angles = 51"
  "k < 51 \<Longrightarrow> up_angles ! k = real k * dtheta"
  "k < 51 \<Longrightarrow> down_angles ! k = pi - real k * dtheta"
  by (simp_all add: up_angles_def down_angles_def del: upt_rec_numeral)

lemma angles_ends:
  "up_angles ! 0 = 0" "up_angles ! 50 = pi / 2"
  "down_angles ! 0 = pi" "down_angles ! 50 = pi / 2"
  by (simp_all add: angles_simps dtheta_def)

lemma euler_runs:
  assumes "ts_spacetime ts = schwarzschild" "ts_z_centre ts = 0"
  shows "forward_run euler_env (expansion ts) (replicate 51 (1 / 2, 0)) up_angles"
    and "backward_run euler_env (expansion ts) (replicate 51 (1 / 2, 0)) down_angles"
proof -
  have up: "real k * dtheta < pi / 2" "pi / 2 + 1 / 10 ^ 12 \<le> pi - real k * dtheta"
    if "k < 50" for k
  proof -
    define x where "x = real k * (pi / 100)"
    have "real k \<le> 49" using that by simp
    then have "x \<le> 49 * (pi / 100)"
      unfolding x_def by (intro mult_right_mono) simp_all
    moreover have "real k * dtheta = x"
      by (simp add: dtheta_def x_def)
    moreover have "(1 :: real) / 10 ^ 12 \<le> 1"
      by simp
    ultimately show "real k * dtheta < pi / 2" "pi / 2 + 1 / 10 ^ 12 \<le> pi - real k * dtheta"
      using pi_ge_two by simp_all
  qed
  have nxt: "real k * dtheta + dtheta = real (Suc k) * dtheta"
    "pi - real k * dtheta - dtheta = pi - real (Suc k) * dtheta" for k
    by (simp_all add: algebra_simps)
  have rp: "replicate 51 (1 / 2 :: real, 0 :: real) ! k = (1 / 2, 0)"
    "replicate 51 (1 / 2 :: real, 0 :: real) ! Suc k = (1 / 2, 0)" if "k < 50" for k
    using that by simp_all
  have an: "up_angles ! k = real k * dtheta" "up_angles ! Suc k = real (Suc k) * dtheta"
    "down_angles ! k = pi - real k * dtheta"
    "down_angles ! Suc k = pi - real (Suc k) * dtheta" if "k < 50" for k
    using that by (simp_all add: angles_simps del: of_nat_Suc)
  have F1: "up_angles ! k < pi / 2" if "k < 50" for k
    unfolding an(1)[OF that] by (rule up(1)[OF that])
  have F2: "dopri5 euler_env (expansion ts) (1 / 10 ^ 8) (1 / 10 ^ 6)
              (replicate 51 (1 / 2, 0) ! k) (up_angles ! k) (up_angles ! k + dtheta)
            = Inr (replicate 51 (1 / 2, 0) ! Suc k, up_angles ! Suc k, True)"
    if "k < 50" for k
    unfolding an(1,2)[OF that] rp[OF that] nxt by (rule euler_holds_horizon[OF assms])
  have B1: "pi / 2 + 1 / 10 ^ 12 \<le> down_angles ! k" if "k < 50" for k
    unfolding an(3)[OF that] by (rule up(2)[OF that])
  have B2: "dopri5 euler_env (expansion ts) (1 / 10 ^ 8) (1 / 10 ^ 6)
              (replicate 51 (1 / 2, 0) ! k) (down_angles ! k) (down_angles ! k - dtheta)
            = Inr (replicate 51 (1 / 2, 0) ! Suc k, down_angles ! Suc k, True)"
    if "k < 50" for k
    unfolding an(3,4)[OF that] rp[OF that] nxt by (rule euler_holds_horizon[OF assms])
  show "forward_run euler_env (expansion ts) (replicate 51 (1 / 2, 0)) up_angles"
    unfolding forward_run_def list_all_iff
    by (intro conjI ballI F1 F2) (simp_all add: angles_simps(1,2) angles_ends)
  show "backward_run euler_env (expansion ts) (replicate 51 (1 / 2, 0)) down_angles"
    unfolding backward_run_def list_all_iff
    by (intro conjI ballI B1 B2) (simp_all add: angles_simps(1,2) angles_ends)
qed

lemma euler_run_ts1:
  "\<exists>ts' theta. solve_given_r0 euler_env ts1_resolved False = Some (Inr ts')
           \<and> ts_theta ts' = Some theta
           \<and> length theta = 204 \<and> theta ! 0 = 0 \<and> last theta = 2 * pi
           \<and> theta ! 101 = pi \<and> theta ! 102 = pi \<and> theta ! 50 = pi / 2
           \<and> theta ! 51 = pi / 2"
proof -
  have gen: "2 \<le> length [1 / 2 :: real]
      \<and> backward_run euler_env (expansion ts1_resolved) (replicate 51 (1 / 2, 0)) down_angles
      \<and> replicate 51 (1 / 2, 0) ! 0 = ([1 / 2 :: real] ! 1, 0 :: real)"
    if "False \<or> \<not> reflection_symmetric (ts_spacetime ts1_resolved)"
    using that by (simp add: resolved_simps ts1_simps)
  have l: "1 \<le> length [1 / 2 :: real]" by simp
  have y0: "replicate 51 (1 / 2, 0) ! 0 = ([1 / 2 :: real] ! 0, 0 :: real)" by simp
  have sym: "reflection_symmetric (ts_spacetime ts1_resolved)"
    by (simp add: resolved_simps ts1_simps)
  from solve_given_r0_runs[where full_horizon = False,
      OF resolved_simps(1) l euler_runs(1)[OF resolved_simps(2,3)] y0 gen]
  show ?thesis
    by (simp add: sym angles_ends)
qed

lemma euler_run_ts1_full:
  "\<exists>ts' theta. solve_given_r0 euler_env ts1_full_resolved True = Some (Inr ts')
           \<and> ts_theta ts' = Some theta
           \<and> length theta = 204 \<and> theta ! 0 = 0 \<and> last theta = 2 * pi
           \<and> theta ! 101 = pi \<and> theta ! 102 = pi \<and> theta ! 50 = pi / 2
           \<and> theta ! 51 = pi / 2"
proof -
  have gen: "2 \<le> length [1 / 2, 1 / 2 :: real]
      \<and> backward_run euler_env (expansion ts1_full_resolved) (replicate 51 (1 / 2, 0))
          down_angles
      \<and> replicate 51 (1 / 2, 0) ! 0 = ([1 / 2, 1 / 2 :: real] ! 1, 0 :: real)"
    if "True \<or> \<not> reflection_symmetric (ts_spacetime ts1_full_resolved)"
    using euler_runs(2)[OF resolved_simps(5,6)] by simp
  have l: "1 \<le> length [1 / 2, 1 / 2 :: real]" by simp
  have y0: "replicate 51 (1 / 2, 0) ! 0 = ([1 / 2, 1 / 2 :: real] ! 0, 0 :: real)" by simp
  from solve_given_r0_runs[where full_horizon = True,
      OF resolved_simps(4) l euler_runs(1)[OF resolved_simps(5,6)] y0 gen]
  show ?thesis
    by (simp add: angles_ends)
qed

subsection \<open>The assembled surface\<close>

text \<open>
  C5 (as amended). For every run of \<open>solve_given_r0\<close> with the step \<open>\<pi>/100\<close> in which
  each quarter trajectory is 50 successful calls of the integrator, the angles
  reported going up staying below \<open>\<pi>/2\<close> until the 50th, and those going down staying
  at \<open>\<pi>/2 + 10\<^sup>-\<^sup>1\<^sup>2\<close> or above until the 50th, in both modes: the run returns, and the
  \<open>\<theta>\<close> sequence has \<open>204 = 4 * 51\<close> samples, begins at 0 and ends at exactly \<open>2\<pi>\<close>, so
  a sample at \<open>2\<pi>\<close> is present; the angle \<open>\<pi>\<close> is stored twice, at the indices 101 and
  102, so the sequence is not strictly increasing; the sample at the index 50 is the
  last angle reported going up, not below \<open>\<pi>/2\<close>; the sample after it is, in the
  symmetric mode, its mirror image \<open>\<pi> - \<theta>\<^sub>5\<^sub>0\<close>, which is not above it, and in the
  general mode the last angle reported going down, below \<open>\<pi>/2 + 10\<^sup>-\<^sup>1\<^sup>2\<close>. The
  trajectories keep both of their end samples, so the samples next to \<open>\<pi>/2\<close> stand
  side by side. Nothing is assumed of calls outside the run, and nothing asserted
  depends on a reported angle being exactly its target.
\<close>

theorem solve_given_r0_coverage:
  assumes "ts_r0 ts = Some r0" and "1 \<le> length r0"
    and "forward_run env (expansion ts) ys th1" and "ys ! 0 = (r0 ! 0, 0)"
    and "full_horizon \<or> \<not> reflection_symmetric (ts_spacetime ts) \<longrightarrow>
           2 \<le> length r0 \<and> backward_run env (expansion ts) ws th2 \<and> ws ! 0 = (r0 ! 1, 0)"
  shows "\<exists>ts' theta. solve_given_r0 env ts full_horizon = Some (Inr ts')
           \<and> ts_theta ts' = Some theta
           \<and> length theta = 204 \<and> theta ! 0 = 0 \<and> last theta = 2 * pi
           \<and> theta ! 101 = pi \<and> theta ! 102 = pi
           \<and> theta ! 50 = th1 ! 50 \<and> pi / 2 \<le> theta ! 50
           \<and> (if full_horizon \<or> \<not> reflection_symmetric (ts_spacetime ts)
               then theta ! 51 = th2 ! 50 \<and> theta ! 51 < pi / 2 + 1 / 10 ^ 12
               else theta ! 51 = pi - theta ! 50 \<and> theta ! 51 \<le> theta ! 50)"
proof -
  from assms(5) have gen: "full_horizon \<or> \<not> reflection_symmetric (ts_spacetime ts) \<Longrightarrow>
           2 \<le> length r0 \<and> backward_run env (expansion ts) ws th2 \<and> ws ! 0 = (r0 ! 1, 0)"
    by blast
  from solve_given_r0_runs[OF assms(1-4) gen] obtain ts' theta where
    run: "solve_given_r0 env ts full_horizon = Some (Inr ts')" and
    th: "ts_theta ts' = Some theta" and
    f: "length theta = 204" "theta ! 0 = 0" "last theta = 2 * pi"
       "theta ! 101 = pi" "theta ! 102 = pi" "theta ! 50 = th1 ! 50" and
    g: "theta ! 51 = (if full_horizon \<or> \<not> reflection_symmetric (ts_spacetime ts)
                            then th2 ! 50 else pi - th1 ! 50)"
    by blast
  have q: "pi / 2 \<le> th1 ! 50"
    using assms(3) by (simp add: forward_run_def)
  have r: "th2 ! 50 < pi / 2 + 1 / 10 ^ 12"
    if "full_horizon \<or> \<not> reflection_symmetric (ts_spacetime ts)"
    using gen[OF that] by (simp add: backward_run_def)
  have last: "if full_horizon \<or> \<not> reflection_symmetric (ts_spacetime ts)
               then theta ! 51 = th2 ! 50 \<and> theta ! 51 < pi / 2 + 1 / 10 ^ 12
               else theta ! 51 = pi - theta ! 50 \<and> theta ! 51 \<le> theta ! 50"
    using g q r f(6) by (auto split: if_splits)
  have q': "pi / 2 \<le> theta ! 50" using q f(6) by simp
  show ?thesis
    by (rule exI[of _ ts'], rule exI[of _ theta])
       (intro conjI run th f q' last)
qed

text \<open>
  Both modes on the Schwarzschild surface resolved at its horizon, under the Euler
  instance, whose calls end exactly at their targets.
\<close>

theorem solve_given_r0_coverage_witness:
  "(\<exists>ts' theta. solve_given_r0 euler_env ts1_resolved False = Some (Inr ts')
       \<and> ts_theta ts' = Some theta \<and> length theta = 204
       \<and> theta ! 0 = 0 \<and> last theta = 2 * pi \<and> theta ! 101 = pi \<and> theta ! 102 = pi
       \<and> theta ! 50 = pi / 2 \<and> theta ! 51 = pi - theta ! 50)
   \<and> (\<exists>ts' theta. solve_given_r0 euler_env ts1_full_resolved True = Some (Inr ts')
       \<and> ts_theta ts' = Some theta \<and> length theta = 204
       \<and> theta ! 0 = 0 \<and> last theta = 2 * pi \<and> theta ! 101 = pi \<and> theta ! 102 = pi
       \<and> theta ! 50 = pi / 2 \<and> theta ! 51 = pi / 2)"
proof -
  let ?ys = "replicate 51 (1 / 2 :: real, 0 :: real)"
  have a: "False \<or> \<not> reflection_symmetric (ts_spacetime ts1_resolved) \<longrightarrow>
       2 \<le> length [1 / 2 :: real]
       \<and> backward_run euler_env (expansion ts1_resolved) ?ys down_angles
       \<and> ?ys ! 0 = ([1 / 2 :: real] ! 1, 0)"
    by (simp add: resolved_simps ts1_simps)
  have b: "True \<or> \<not> reflection_symmetric (ts_spacetime ts1_full_resolved) \<longrightarrow>
       2 \<le> length [1 / 2, 1 / 2 :: real]
       \<and> backward_run euler_env (expansion ts1_full_resolved) ?ys down_angles
       \<and> ?ys ! 0 = ([1 / 2, 1 / 2 :: real] ! 1, 0)"
    using euler_runs(2)[OF resolved_simps(5,6)] by simp
  have y0: "?ys ! 0 = ([1 / 2 :: real] ! 0, 0)" "?ys ! 0 = ([1 / 2, 1 / 2 :: real] ! 0, 0)"
    by simp_all
  have l: "1 \<le> length [1 / 2 :: real]" "1 \<le> length [1 / 2, 1 / 2 :: real]" by simp_all
  from solve_given_r0_coverage[OF resolved_simps(1) l(1)
      euler_runs(1)[OF resolved_simps(2,3)] y0(1) a]
  have s: "\<exists>ts' theta. solve_given_r0 euler_env ts1_resolved False = Some (Inr ts')
       \<and> ts_theta ts' = Some theta \<and> length theta = 204
       \<and> theta ! 0 = 0 \<and> last theta = 2 * pi \<and> theta ! 101 = pi \<and> theta ! 102 = pi
       \<and> theta ! 50 = pi / 2 \<and> theta ! 51 = pi - theta ! 50"
    by (simp add: resolved_simps ts1_simps angles_ends) blast
  from solve_given_r0_coverage[OF resolved_simps(4) l(2)
      euler_runs(1)[OF resolved_simps(5,6)] y0(2) b]
  have g: "\<exists>ts' theta. solve_given_r0 euler_env ts1_full_resolved True = Some (Inr ts')
       \<and> ts_theta ts' = Some theta \<and> length theta = 204
       \<and> theta ! 0 = 0 \<and> last theta = 2 * pi \<and> theta ! 101 = pi \<and> theta ! 102 = pi
       \<and> theta ! 50 = pi / 2 \<and> theta ! 51 = pi / 2"
    by (simp add: angles_ends) blast
  from s g show ?thesis by (rule conjI)
qed

text \<open>
  The claim as written fails on both runs: the last sample is \<open>2\<pi>\<close> itself, the
  sequence has 204 samples, more than \<open>200 + 1\<close>, and it is not strictly increasing,
  neither from the index 50 to 51, where \<open>\<pi>/2\<close> stands twice, nor from 101 to 102,
  where \<open>\<pi>\<close> does.
\<close>

theorem solve_given_r0_coverage_counterexample:
  "(\<exists>ts' theta. solve_given_r0 euler_env ts1_resolved False = Some (Inr ts')
       \<and> ts_theta ts' = Some theta
       \<and> \<not> last theta < 2 * pi \<and> \<not> length theta \<le> 201
       \<and> \<not> theta ! 50 < theta ! 51 \<and> \<not> theta ! 101 < theta ! 102)
   \<and> (\<exists>ts' theta. solve_given_r0 euler_env ts1_full_resolved True = Some (Inr ts')
       \<and> ts_theta ts' = Some theta
       \<and> \<not> last theta < 2 * pi \<and> \<not> length theta \<le> 201
       \<and> \<not> theta ! 50 < theta ! 51 \<and> \<not> theta ! 101 < theta ! 102)"
proof -
  from euler_run_ts1 obtain ts' theta where
    a: "solve_given_r0 euler_env ts1_resolved False = Some (Inr ts')"
       "ts_theta ts' = Some theta" and
    b: "length theta = 204" "last theta = 2 * pi" "theta ! 101 = pi" "theta ! 102 = pi"
       "theta ! 50 = pi / 2" "theta ! 51 = pi / 2"
    by blast
  from euler_run_ts1_full obtain us' phi where
    c: "solve_given_r0 euler_env ts1_full_resolved True = Some (Inr us')"
       "ts_theta us' = Some phi" and
    d: "length phi = 204" "last phi = 2 * pi" "phi ! 101 = pi" "phi ! 102 = pi"
       "phi ! 50 = pi / 2" "phi ! 51 = pi / 2"
    by blast
  have "solve_given_r0 euler_env ts1_resolved False = Some (Inr ts')
       \<and> ts_theta ts' = Some theta
       \<and> \<not> last theta < 2 * pi \<and> \<not> length theta \<le> 201
       \<and> \<not> theta ! 50 < theta ! 51 \<and> \<not> theta ! 101 < theta ! 102"
    using a by (simp add: b)
  moreover have "solve_given_r0 euler_env ts1_full_resolved True = Some (Inr us')
       \<and> ts_theta us' = Some phi
       \<and> \<not> last phi < 2 * pi \<and> \<not> length phi \<le> 201
       \<and> \<not> phi ! 50 < phi ! 51 \<and> \<not> phi ! 101 < phi ! 102"
    using c by (simp add: d)
  ultimately show ?thesis by blast
qed

text \<open>
  C10. For every symmetric-mode run of \<open>solve_given_r0\<close> that returns, whatever the
  integrator: the run is the trajectory \<open>(H1, theta1)\<close> that \<open>forward_loop\<close> returns from
  the state \<open>(r0[0], 0)\<close> at the angle 0, whose first sample is that state, whose every
  further sample is what one call of the integrator returns from the sample before
  it, and which has at least two samples; the surface returned is the given one with
  \<open>H\<close> and \<open>theta\<close> set; with \<open>n\<close> the number of samples of the trajectory both have
  \<open>4n\<close> entries, and for every \<open>k < n\<close> the entries at \<open>k\<close>, \<open>2n - 1 - k\<close>, \<open>2n + k\<close>
  and \<open>4n - 1 - k\<close> have the angles \<open>\<theta>\<^sub>k\<close>, \<open>\<pi> - \<theta>\<^sub>k\<close>, \<open>\<theta>\<^sub>k + \<pi>\<close> and
  \<open>(\<pi> - \<theta>\<^sub>k) + \<pi>\<close> and all four carry exactly the state \<open>(h, h')\<close> of the trajectory's
  sample \<open>k\<close>. The states are copied, so \<open>h'\<close> keeps its sign under both reflections.
\<close>

theorem solve_given_r0_mirrors_verbatim:
  assumes "reflection_symmetric (ts_spacetime ts)" and "\<not> full_horizon"
    and "solve_given_r0 env ts full_horizon = Some (Inr ts')"
  shows "\<exists>r0 H1 theta1 H theta.
      ts_r0 ts = Some r0
      \<and> forward_loop env (ode_init (expansion ts) (1 / 10 ^ 8) (1 / 10 ^ 6) (r0 ! 0, 0) 0)
            [(r0 ! 0, 0)] [0] = Some (Inr (H1, theta1))
      \<and> length theta1 = length H1 \<and> 1 < length H1
      \<and> H1 ! 0 = (r0 ! 0, 0) \<and> theta1 ! 0 = 0
      \<and> (\<forall>k. Suc k < length H1 \<longrightarrow>
            (\<exists>ok. dopri5 env (expansion ts) (1 / 10 ^ 8) (1 / 10 ^ 6) (H1 ! k) (theta1 ! k)
                     (theta1 ! k + dtheta) = Inr (H1 ! Suc k, theta1 ! Suc k, ok)
                   \<and> ((ok \<and> theta1 ! Suc k < pi / 2) = (Suc (Suc k) < length H1))))
      \<and> ts' = ts\<lparr>ts_H := Some H, ts_theta := Some theta\<rparr>
      \<and> length H = 4 * length H1 \<and> length theta = 4 * length H1
      \<and> (\<forall>k<length H1.
            theta ! k = theta1 ! k \<and> H ! k = H1 ! k
          \<and> theta ! (2 * length H1 - 1 - k) = pi - theta1 ! k
          \<and> H ! (2 * length H1 - 1 - k) = H1 ! k
          \<and> theta ! (2 * length H1 + k) = theta1 ! k + pi
          \<and> H ! (2 * length H1 + k) = H1 ! k
          \<and> theta ! (4 * length H1 - 1 - k) = pi - theta1 ! k + pi
          \<and> H ! (4 * length H1 - 1 - k) = H1 ! k)"
proof -
  from solve_given_r0_symmetric_shape[OF assms] obtain r0 H1 theta1 where
    r0: "ts_r0 ts = Some r0" and
    loop: "forward_loop env (ode_init (expansion ts) (1 / 10 ^ 8) (1 / 10 ^ 6) (r0 ! 0, 0) 0)
             [(r0 ! 0, 0)] [0] = Some (Inr (H1, theta1))" and
    ts': "ts' = fill_remaining ts (H1 @ rev H1) (theta1 @ rev (map (\<lambda>t. pi - t) theta1))"
    by blast
  note tr = forward_loop_trace[OF loop]
  have len: "length H1 = length theta1" by (rule tr(1))
  let ?n = "length H1"
  let ?Hh = "H1 @ rev H1"
  let ?T = "theta1 @ rev (map (\<lambda>t. pi - t) theta1)"
  let ?H = "?Hh @ rev ?Hh"
  let ?theta = "?T @ map (\<lambda>t. t + pi) ?T"
  have lenHh: "length ?Hh = 2 * ?n" and lenT: "length ?T = 2 * ?n"
    using len by simp_all
  have pal: "rev ?Hh = ?Hh" by simp
  have a: "ts' = ts\<lparr>ts_H := Some ?H, ts_theta := Some ?theta\<rparr>"
    by (simp only: ts' fill_remaining_def)
  have b: "length ?H = 4 * ?n" "length ?theta = 4 * ?n"
    using len by simp_all
  have low: "?theta ! j = ?T ! j" "?H ! j = ?Hh ! j" if "j < 2 * ?n" for j
    using that lenT lenHh by (simp_all only: nth_append if_True)
  have high: "?theta ! (2 * ?n + j) = ?T ! j + pi" "?H ! (2 * ?n + j) = ?Hh ! j"
    if "j < 2 * ?n" for j
  proof -
    have "?theta ! (2 * ?n + j) = map (\<lambda>t. t + pi) ?T ! j"
      using lenT by (metis nth_append_length_plus)
    then show "?theta ! (2 * ?n + j) = ?T ! j + pi"
      using that lenT by (simp only: nth_map)
    have "?H ! (2 * ?n + j) = rev ?Hh ! j"
      using lenHh by (metis nth_append_length_plus)
    then show "?H ! (2 * ?n + j) = ?Hh ! j"
      by (simp only: pal)
  qed
  have c: "?theta ! k = theta1 ! k \<and> ?H ! k = H1 ! k
          \<and> ?theta ! (2 * ?n - 1 - k) = pi - theta1 ! k
          \<and> ?H ! (2 * ?n - 1 - k) = H1 ! k
          \<and> ?theta ! (2 * ?n + k) = theta1 ! k + pi
          \<and> ?H ! (2 * ?n + k) = H1 ! k
          \<and> ?theta ! (4 * ?n - 1 - k) = pi - theta1 ! k + pi
          \<and> ?H ! (4 * ?n - 1 - k) = H1 ! k"
    if k: "k < ?n" for k
  proof -
    have k': "k < length theta1" using k len by simp
    have lt: "k < 2 * ?n" "2 * ?n - 1 - k < 2 * ?n" using k by linarith+
    have idx: "4 * ?n - 1 - k = 2 * ?n + (2 * ?n - 1 - k)" using k by linarith
    note m = mirror_nth[OF len k', unfolded len[symmetric]]
    show ?thesis
      unfolding idx low[OF lt(1)] low[OF lt(2)] high[OF lt(1)] high[OF lt(2)]
      using m by simp
  qed
  have d: "\<forall>k. Suc k < length H1 \<longrightarrow>
            (\<exists>ok. dopri5 env (expansion ts) (1 / 10 ^ 8) (1 / 10 ^ 6) (H1 ! k) (theta1 ! k)
                     (theta1 ! k + dtheta) = Inr (H1 ! Suc k, theta1 ! Suc k, ok)
                   \<and> ((ok \<and> theta1 ! Suc k < pi / 2) = (Suc (Suc k) < length H1)))"
    by (rule tr(6))
  have two: "1 < length H1"
    using tr(5) by simp
  have c': "\<forall>k<length H1.
            ?theta ! k = theta1 ! k \<and> ?H ! k = H1 ! k
          \<and> ?theta ! (2 * ?n - 1 - k) = pi - theta1 ! k
          \<and> ?H ! (2 * ?n - 1 - k) = H1 ! k
          \<and> ?theta ! (2 * ?n + k) = theta1 ! k + pi
          \<and> ?H ! (2 * ?n + k) = H1 ! k
          \<and> ?theta ! (4 * ?n - 1 - k) = pi - theta1 ! k + pi
          \<and> ?H ! (4 * ?n - 1 - k) = H1 ! k"
    using c by blast
  show ?thesis
    by (rule exI[of _ r0], rule exI[of _ H1], rule exI[of _ theta1],
        rule exI[of _ ?H], rule exI[of _ ?theta])
       (intro conjI r0 loop len[symmetric] two tr(3) tr(4) d a b c')
qed

text \<open>
  The symmetric run on the resolved Schwarzschild surface under the Euler instance:
  the four copies of the first sample.
\<close>

theorem solve_given_r0_mirrors_verbatim_witness:
  "\<exists>ts' H1 theta1 H theta.
      solve_given_r0 euler_env ts1_resolved False = Some (Inr ts')
      \<and> forward_loop euler_env
           (ode_init (expansion ts1_resolved) (1 / 10 ^ 8) (1 / 10 ^ 6) (1 / 2, 0) 0)
           [(1 / 2, 0)] [0] = Some (Inr (H1, theta1))
      \<and> H1 ! 0 = (1 / 2, 0) \<and> theta1 ! 0 = 0
      \<and> ts_H ts' = Some H \<and> ts_theta ts' = Some theta
      \<and> length H = 4 * length H1
      \<and> H ! 0 = (1 / 2, 0) \<and> theta ! 0 = 0
      \<and> H ! (2 * length H1 - 1) = (1 / 2, 0) \<and> theta ! (2 * length H1 - 1) = pi
      \<and> H ! (2 * length H1) = (1 / 2, 0) \<and> theta ! (2 * length H1) = pi
      \<and> H ! (4 * length H1 - 1) = (1 / 2, 0) \<and> theta ! (4 * length H1 - 1) = 2 * pi"
proof -
  from euler_run_ts1 obtain ts' where
    run: "solve_given_r0 euler_env ts1_resolved False = Some (Inr ts')"
    by blast
  have sym: "reflection_symmetric (ts_spacetime ts1_resolved)"
    by (simp add: resolved_simps ts1_simps)
  have nf: "\<not> False" by simp
  from solve_given_r0_mirrors_verbatim[OF sym nf run] obtain r0 H1 theta1 H theta where
    r0: "ts_r0 ts1_resolved = Some r0" and
    loop: "forward_loop euler_env
           (ode_init (expansion ts1_resolved) (1 / 10 ^ 8) (1 / 10 ^ 6) (r0 ! 0, 0) 0)
           [(r0 ! 0, 0)] [0] = Some (Inr (H1, theta1))" and
    st: "1 < length H1" "H1 ! 0 = (r0 ! 0, 0)" "theta1 ! 0 = 0" and
    ts': "ts' = ts1_resolved\<lparr>ts_H := Some H, ts_theta := Some theta\<rparr>" and
    lenH: "length H = 4 * length H1" and
    m: "\<forall>k<length H1.
            theta ! k = theta1 ! k \<and> H ! k = H1 ! k
          \<and> theta ! (2 * length H1 - 1 - k) = pi - theta1 ! k
          \<and> H ! (2 * length H1 - 1 - k) = H1 ! k
          \<and> theta ! (2 * length H1 + k) = theta1 ! k + pi
          \<and> H ! (2 * length H1 + k) = H1 ! k
          \<and> theta ! (4 * length H1 - 1 - k) = pi - theta1 ! k + pi
          \<and> H ! (4 * length H1 - 1 - k) = H1 ! k"
    by blast
  have r: "r0 = [1 / 2]" using r0 by (simp add: resolved_simps)
  have pos: "0 < length H1" using st(1) by auto
  from m[rule_format, OF pos] st(2,3) have v:
    "H ! 0 = (1 / 2, 0)" "theta ! 0 = 0"
    "H ! (2 * length H1 - 1) = (1 / 2, 0)" "theta ! (2 * length H1 - 1) = pi"
    "H ! (2 * length H1) = (1 / 2, 0)" "theta ! (2 * length H1) = pi"
    "H ! (4 * length H1 - 1) = (1 / 2, 0)" "theta ! (4 * length H1 - 1) = 2 * pi"
    by (simp_all add: r)
  have out: "ts_H ts' = Some H" "ts_theta ts' = Some theta" by (simp_all add: ts')
  have h0: "H1 ! 0 = (1 / 2, 0)" using st(2) by (simp add: r)
  have loop': "forward_loop euler_env
           (ode_init (expansion ts1_resolved) (1 / 10 ^ 8) (1 / 10 ^ 6) (1 / 2, 0) 0)
           [(1 / 2, 0)] [0] = Some (Inr (H1, theta1))"
    using loop by (simp add: r)
  show ?thesis
    by (rule exI[of _ ts'], rule exI[of _ H1], rule exI[of _ theta1],
        rule exI[of _ H], rule exI[of _ theta])
       (intro conjI run loop' h0 st(3) out lenH v)
qed

subsection \<open>The two-body helper\<close>

lemma linspace_50:
  "linspace a b 50 = map (\<lambda>i. a + real i * ((b - a) / 49)) [0..<49] @ [b]"
  by (simp add: linspace_def del: upt_rec_numeral)

lemma linspace_50_facts:
  "length (linspace a b 50) = 50"
  "last (linspace a b 50) = b"
  "i < 50 \<Longrightarrow> linspace a b 50 ! i = a + real i * ((b - a) / 49)"
proof -
  show "length (linspace a b 50) = 50"
    unfolding linspace_50 by (simp del: upt_rec_numeral)
  show "last (linspace a b 50) = b"
    unfolding linspace_50 by simp
  assume i: "i < 50"
  show "linspace a b 50 ! i = a + real i * ((b - a) / 49)"
  proof (cases "i < 49")
    case True
    then show ?thesis
      unfolding linspace_50 by (simp add: nth_append del: upt_rec_numeral)
  next
    case False
    with i have "i = 49" by simp
    then show ?thesis
      unfolding linspace_50 by (simp add: nth_append field_simps del: upt_rec_numeral)
  qed
qed

lemma argmin_from_spec:
  assumes "i = length pre" "best < i" "v = pre ! best"
    and "\<forall>j<i. v \<le> pre ! j" and "\<forall>j<best. v < pre ! j"
  shows "argmin_from ys i best v < length (pre @ ys)
         \<and> (\<forall>j<length (pre @ ys). (pre @ ys) ! argmin_from ys i best v \<le> (pre @ ys) ! j)
         \<and> (\<forall>j<argmin_from ys i best v. (pre @ ys) ! argmin_from ys i best v < (pre @ ys) ! j)"
  using assms
proof (induction ys arbitrary: pre i best v)
  case Nil
  then show ?case by simp
next
  case (Cons y ys)
  have app: "pre @ y # ys = (pre @ [y]) @ ys" by simp
  show ?case
  proof (cases "y < v")
    case True
    have "argmin_from ys (Suc i) i y < length ((pre @ [y]) @ ys)
         \<and> (\<forall>j<length ((pre @ [y]) @ ys).
               ((pre @ [y]) @ ys) ! argmin_from ys (Suc i) i y \<le> ((pre @ [y]) @ ys) ! j)
         \<and> (\<forall>j<argmin_from ys (Suc i) i y.
               ((pre @ [y]) @ ys) ! argmin_from ys (Suc i) i y < ((pre @ [y]) @ ys) ! j)"
    proof (rule Cons.IH)
      show "Suc i = length (pre @ [y])" using Cons.prems(1) by simp
      show "i < Suc i" by simp
      show "y = (pre @ [y]) ! i" using Cons.prems(1) by simp
      show "\<forall>j<Suc i. y \<le> (pre @ [y]) ! j"
        using Cons.prems(1,4) True by (auto simp: nth_append less_Suc_eq)
      show "\<forall>j<i. y < (pre @ [y]) ! j"
        using Cons.prems(1,4) True by (auto simp: nth_append)
    qed
    with True show ?thesis unfolding app by simp
  next
    case False
    have "argmin_from ys (Suc i) best v < length ((pre @ [y]) @ ys)
         \<and> (\<forall>j<length ((pre @ [y]) @ ys).
               ((pre @ [y]) @ ys) ! argmin_from ys (Suc i) best v \<le> ((pre @ [y]) @ ys) ! j)
         \<and> (\<forall>j<argmin_from ys (Suc i) best v.
               ((pre @ [y]) @ ys) ! argmin_from ys (Suc i) best v < ((pre @ [y]) @ ys) ! j)"
    proof (rule Cons.IH)
      show "Suc i = length (pre @ [y])" using Cons.prems(1) by simp
      show "best < Suc i" using Cons.prems(2) by simp
      show "v = (pre @ [y]) ! best" using Cons.prems(1,2,3) by (simp add: nth_append)
      show "\<forall>j<Suc i. v \<le> (pre @ [y]) ! j"
        using Cons.prems(1,4) False by (auto simp: nth_append less_Suc_eq)
      show "\<forall>j<best. v < (pre @ [y]) ! j"
        using Cons.prems(1,2,5) by (auto simp: nth_append)
    qed
    with False show ?thesis unfolding app by simp
  qed
qed

lemma argmin_spec:
  assumes "phi \<noteq> []"
  shows "\<exists>k. argmin phi = Inr k \<and> k < length phi
           \<and> (\<forall>j<length phi. phi ! k \<le> phi ! j) \<and> (\<forall>j<k. phi ! k < phi ! j)"
proof -
  from assms obtain y ys where phi: "phi = y # ys" by (cases phi) auto
  have "argmin_from ys 1 0 y < length ([y] @ ys)
      \<and> (\<forall>j<length ([y] @ ys). ([y] @ ys) ! argmin_from ys 1 0 y \<le> ([y] @ ys) ! j)
      \<and> (\<forall>j<argmin_from ys 1 0 y. ([y] @ ys) ! argmin_from ys 1 0 y < ([y] @ ys) ! j)"
    by (rule argmin_from_spec) simp_all
  then show ?thesis
    by (simp add: phi argmin_def)
qed

lemma scan_phi_spec:
  "scan_phi env ts rs = Inr phi \<Longrightarrow>
     length phi = length rs \<and> (\<forall>i<length rs. shooting_function env ts (rs ! i) = Inr (phi ! i))"
proof (induction rs arbitrary: phi)
  case Nil
  then show ?case by simp
next
  case (Cons r rs)
  from Cons.prems obtain v vs where
    v: "shooting_function env ts r = Inr v" and vs: "scan_phi env ts rs = Inr vs" and
    phi: "phi = v # vs"
    by (auto split: sum.splits)
  from Cons.IH[OF vs] v phi show ?case
    by (auto simp: nth_Cons split: nat.splits)
qed

lemma ts_binary_simps:
  "masses (ts_spacetime ts_binary) = [1, 1]"
  "z_positions (ts_spacetime ts_binary) = [- (1 / 2), 1 / 2]"
  "ts_z_centre ts_binary = 0"
  "reflection_symmetric (ts_spacetime ts_binary)"
  by (simp_all add: ts_binary_def trappedsurface_init_def spacetime_init_def)

lemma r0_empirical_default: "r0_empirical (1 / 2) 1 = 23037 / 20000"
  by (simp add: r0_empirical_def power_divide)

lemma euler_slope_binary_values:
  "euler_slope ts_binary 0 (437703 / 400000) < euler_slope ts_binary 0 (483777 / 400000)"
  "euler_slope ts_binary 0 (483777 / 400000) < 0"
  "euler_slope ts_binary 0 (2280663 / 2000000) < 0"
  "euler_slope ts_binary 0 (2326737 / 2000000) < 0"
  by (simp_all add: euler_slope_def psi_sum_def dpsi_dr_sum_def sing_dist_axis ts_binary_simps
      lessThan_Suc numeral_2_eq_2 power_divide)

lemma euler_slope_ts_r0: "euler_slope (ts\<lparr>ts_r0 := v\<rparr>) = euler_slope ts"
  by (rule ext)+ (simp add: euler_slope_def psi_sum_def dpsi_dr_sum_def sing_dist_def)

lemma scan_phi_euler:
  assumes "length (masses (ts_spacetime ts)) \<le> length (z_positions (ts_spacetime ts))"
    and "list_all (\<lambda>r. r \<noteq> 0) rs"
  shows "scan_phi euler_env ts rs = Inr (map (\<lambda>r. pi / 2 * euler_slope ts 0 r) rs)"
  using assms(2) by (induction rs) (simp_all add: shooting_function_euler[OF assms(1)])

lemma linspace_50_nonzero:
  assumes "0 < a" "a \<le> b"
  shows "list_all (\<lambda>r. r \<noteq> 0) (linspace a b 50)"
proof -
  have pos: "0 < a + real i * ((b - a) / 49)" for i
    using assms by (simp add: add_pos_nonneg)
  have "list_all (\<lambda>r. r \<noteq> 0) (map (\<lambda>i. a + real i * ((b - a) / 49)) [0..<49])"
    unfolding list_all_iff
  proof (intro ballI)
    fix r assume "r \<in> set (map (\<lambda>i. a + real i * ((b - a) / 49)) [0..<49])"
    then obtain i where "r = a + real i * ((b - a) / 49)"
      unfolding set_map by blast
    with pos[of i] show "r \<noteq> 0" by simp
  qed
  moreover have "b \<noteq> 0" using assms by simp
  ultimately show ?thesis unfolding linspace_50 by simp
qed

lemma linspace_50_ends:
  "linspace a b 50 ! 0 = a" "linspace a b 50 ! 49 = b"
  using linspace_50_facts(3)[of 0 a b] linspace_50_facts(3)[of 49 a b]
  by (simp_all add: field_simps)

lemma first_solve_default:
  "find_r0 euler_env ts_binary [99 / 100 * (23037 / 20000), 101 / 100 * (23037 / 20000)] False =
     (Some ValueError, ts_binary\<lparr>ts_r0 := Some []\<rparr>)"
proof -
  have len: "length (masses (ts_spacetime ts_binary)) \<le> length (z_positions (ts_spacetime ts_binary))"
    by (simp add: ts_binary_simps)
  have "0 < pi / 2 * euler_slope ts_binary 0 (2280663 / 2000000)
          * (pi / 2 * euler_slope ts_binary 0 (2326737 / 2000000))"
    using euler_slope_binary_values(3,4) by (simp add: zero_less_mult_iff mult_less_0_iff)
  moreover have nf: "\<not> False" by simp
  ultimately show ?thesis
    unfolding find_r0_symmetric[OF ts_binary_simps(4) nf]
    by (simp add: brentq_def shooting_function_euler[OF len])
qed

lemma ts_coincident_simps:
  "masses (ts_spacetime ts_coincident) = [1, 1]"
  "z_positions (ts_spacetime ts_coincident) = [0, 0]"
  "ts_z_centre ts_coincident = 0"
  "reflection_symmetric (ts_spacetime ts_coincident)"
  by (simp_all add: ts_coincident_def trappedsurface_init_def spacetime_init_def)

lemma euler_slope_coincident:
  "euler_slope ts_coincident 0 (99 / 100) = - 99 / 9950"
  "euler_slope ts_coincident 0 (101 / 100) = 101 / 10050"
  by (simp_all add: euler_slope_def psi_sum_def dpsi_dr_sum_def sing_dist_axis
      ts_coincident_simps lessThan_Suc numeral_2_eq_2 power_divide)

lemma stalling_env_simps:
  "dopri5 stalling_env = euler_step" "brent_iter stalling_env = stalling_iter"
  by (simp_all add: stalling_env_def)

lemma shooting_function_stalling:
  assumes "length (masses (ts_spacetime ts)) \<le> length (z_positions (ts_spacetime ts))"
    and "r \<noteq> 0"
  shows "shooting_function stalling_env ts r = Inr (pi / 2 * euler_slope ts 0 r)"
  by (simp add: shooting_function_def integrate_def ode_init_def stalling_env_simps
      euler_step_def expansion_at_rest[OF assms])

lemma first_solve_stalls:
  "find_r0 stalling_env (trappedsurface_init (spacetime_init [- 0, 0] [1, 1] True) 0)
     [0.99 * r0_empirical 0 1, 1.01 * r0_empirical 0 1] False =
     (Some RuntimeError, ts_coincident\<lparr>ts_r0 := Some []\<rparr>)"
proof -
  have len: "length (masses (ts_spacetime ts_coincident))
      \<le> length (z_positions (ts_spacetime ts_coincident))"
    by (simp add: ts_coincident_simps)
  have nf: "\<not> False" by simp
  have r: "r0_empirical 0 1 = 1" by (simp add: r0_empirical_def)
  have "\<not> 0 < pi / 2 * (- 99 / 9950) * (pi / 2 * (101 / 10050))"
    by (simp add: zero_less_mult_iff)
  then show ?thesis
    unfolding ts_coincident_def[symmetric] r find_r0_symmetric[OF ts_coincident_simps(4) nf]
    by (simp add: brentq_def shooting_function_stalling[OF len] euler_slope_coincident
        stalling_env_simps stalling_iter_def)
qed

text \<open>
  C9 (as amended). In \<open>FindHorizonBinarySymmetric\<close> the first solve uses the bracket
  \<open>[0.99, 1.01]\<close> times the empirical guess
  \<open>mass (1 - 0.0383 z + 0.945 z\<^sup>2 - 0.522 z\<^sup>3)\<close>. Whenever it raises \<open>ValueError\<close>
  (what \<open>brentq\<close> raises for a bracket without a sign change, and the only exception the
  helper catches), the helper evaluates the symmetric objective at 50 evenly spaced
  candidate radii from 0.95 to 1.05 times the guess, selects the first candidate at
  which the signed value of the objective is least (\<open>np.argmin(phi)\<close>, not the least
  magnitude), and calls \<open>find_r0\<close> again with that candidate and the far edge
  \<open>1.05\<close> times the guess as the bracket. There is no other recovery: an exception
  of the retry, of a candidate's evaluation, or any other exception of the first solve
  is passed on to the caller.
\<close>

theorem helper_scan_and_retry:
  assumes "r = r0_empirical z mass"
    and "ts0 = trappedsurface_init (spacetime_init [- z, z] [mass, mass] True) 0"
    and "first = find_r0 env ts0 [0.99 * r, 1.01 * r] False"
    and "cand = linspace (0.95 * r) (1.05 * r) 50"
  shows "r = mass * (1 - 0.0383 * z + 0.945 * z ^ 2 - 0.522 * z ^ 3)
     \<and> length cand = 50 \<and> cand ! 0 = 0.95 * r \<and> last cand = 1.05 * r
     \<and> (\<forall>i<50. cand ! i = 0.95 * r + real i * ((1.05 * r - 0.95 * r) / 49))
     \<and> (\<forall>ts phi. first = (Some ValueError, ts) \<and> scan_phi env ts cand = Inr phi \<longrightarrow>
          (\<exists>k<50. argmin phi = Inr k
             \<and> (\<forall>i<50. shooting_function env ts (cand ! i) = Inr (phi ! i))
             \<and> (\<forall>i<50. phi ! k \<le> phi ! i) \<and> (\<forall>i<k. phi ! k < phi ! i)
             \<and> FindHorizonBinarySymmetric env z mass =
                 (case find_r0 env ts [cand ! k, 1.05 * r] False of
                    (None, ts') \<Rightarrow> solve_and_convert env ts'
                  | (Some e, ts') \<Rightarrow> Some (Inl e))))
     \<and> (\<forall>ts e. first = (Some ValueError, ts) \<and> scan_phi env ts cand = Inl e \<longrightarrow>
          FindHorizonBinarySymmetric env z mass = Some (Inl e))
     \<and> (\<forall>ts e. first = (Some e, ts) \<and> e \<noteq> ValueError \<longrightarrow>
          FindHorizonBinarySymmetric env z mass = Some (Inl e))
     \<and> (\<forall>ts. first = (None, ts) \<longrightarrow>
          FindHorizonBinarySymmetric env z mass = solve_and_convert env ts)"
proof -
  have first: "find_r0 env (trappedsurface_init (spacetime_init [- z, z] [mass, mass] True) 0)
      [0.99 * r0_empirical z mass, 1.01 * r0_empirical z mass] False = first"
    using assms by simp
  have helper: "FindHorizonBinarySymmetric env z mass =
      (case first of
         (None, ts) \<Rightarrow> solve_and_convert env ts
       | (Some ValueError, ts) \<Rightarrow>
           (case scan_and_retry env ts r of
              (None, ts) \<Rightarrow> solve_and_convert env ts
            | (Some e, ts) \<Rightarrow> Some (Inl e))
       | (Some e, ts) \<Rightarrow> Some (Inl e))"
    unfolding FindHorizonBinarySymmetric_def Let_def first assms(1) by (rule refl)
  have p1: "r = mass * (1 - 0.0383 * z + 0.945 * z ^ 2 - 0.522 * z ^ 3)"
    using assms(1) by (simp add: r0_empirical_def)
  have p2: "length cand = 50" "last cand = 1.05 * r"
    and p3: "\<forall>i<50. cand ! i = 0.95 * r + real i * ((1.05 * r - 0.95 * r) / 49)"
    unfolding assms(4) using linspace_50_facts by blast+
  have p4: "cand ! 0 = 0.95 * r"
    using p3[rule_format, of 0] by simp
  have ok: "\<exists>k<50. argmin phi = Inr k
             \<and> (\<forall>i<50. shooting_function env ts (cand ! i) = Inr (phi ! i))
             \<and> (\<forall>i<50. phi ! k \<le> phi ! i) \<and> (\<forall>i<k. phi ! k < phi ! i)
             \<and> FindHorizonBinarySymmetric env z mass =
                 (case find_r0 env ts [cand ! k, 1.05 * r] False of
                    (None, ts') \<Rightarrow> solve_and_convert env ts'
                  | (Some e, ts') \<Rightarrow> Some (Inl e))"
    if f: "first = (Some ValueError, ts)" and sc: "scan_phi env ts cand = Inr phi" for ts phi
  proof -
    from scan_phi_spec[OF sc] p2(1) have len: "length phi = 50" and
      vals: "\<forall>i<50. shooting_function env ts (cand ! i) = Inr (phi ! i)"
      by simp_all
    then have "phi \<noteq> []" by auto
    from argmin_spec[OF this] len obtain k where k: "argmin phi = Inr k" "k < 50"
      "\<forall>j<50. phi ! k \<le> phi ! j" "\<forall>j<k. phi ! k < phi ! j"
      by auto
    have "scan_and_retry env ts r = find_r0 env ts [cand ! k, 1.05 * r] False"
      unfolding scan_and_retry_def Let_def assms(4)[symmetric] sc p2(2) by (simp add: k(1))
    then have "FindHorizonBinarySymmetric env z mass =
                 (case find_r0 env ts [cand ! k, 1.05 * r] False of
                    (None, ts') \<Rightarrow> solve_and_convert env ts'
                  | (Some e, ts') \<Rightarrow> Some (Inl e))"
      unfolding helper f by simp
    with k vals show ?thesis by blast
  qed
  have scan_fails: "FindHorizonBinarySymmetric env z mass = Some (Inl e)"
    if f: "first = (Some ValueError, ts)" and sc: "scan_phi env ts cand = Inl e" for ts e
  proof -
    have "scan_and_retry env ts r = (Some e, ts)"
      unfolding scan_and_retry_def Let_def assms(4)[symmetric] sc by simp
    then show ?thesis unfolding helper f by simp
  qed
  have other: "FindHorizonBinarySymmetric env z mass = Some (Inl e)"
    if "first = (Some e, ts)" "e \<noteq> ValueError" for ts e
    unfolding helper using that by (cases e) simp_all
  have none: "FindHorizonBinarySymmetric env z mass = solve_and_convert env ts"
    if "first = (None, ts)" for ts
    unfolding helper using that by simp
  from p1 p2 p3 p4 ok scan_fails other none show ?thesis by blast
qed

text \<open>
  With the Euler instance and the default arguments the objective is negative at the
  selected candidate and at the far edge, both solves raise \<open>ValueError\<close> and the
  helper passes it on; with a
  bracket iteration that gives up, at \<open>z = 0\<close> the first solve raises \<open>RuntimeError\<close>
  and no scan takes place.
\<close>

theorem helper_scan_and_retry_witness:
  "r0_empirical (1 / 2) 1 = 23037 / 20000
   \<and> (\<exists>ts phi k.
        find_r0 euler_env (trappedsurface_init (spacetime_init [- (1 / 2), 1 / 2] [1, 1] True) 0)
          [0.99 * r0_empirical (1 / 2) 1, 1.01 * r0_empirical (1 / 2) 1] False
          = (Some ValueError, ts)
        \<and> scan_phi euler_env ts
            (linspace (0.95 * r0_empirical (1 / 2) 1) (1.05 * r0_empirical (1 / 2) 1) 50) = Inr phi
        \<and> argmin phi = Inr k \<and> k < 50 \<and> phi ! k \<le> phi ! 0 \<and> phi ! k \<le> phi ! 49)
   \<and> FindHorizonBinarySymmetric euler_env (1 / 2) 1 = Some (Inl ValueError)
   \<and> FindHorizonBinarySymmetric stalling_env 0 1 = Some (Inl RuntimeError)"
proof -
  let ?r = "r0_empirical (1 / 2) 1"
  let ?ts = "ts_binary\<lparr>ts_r0 := Some []\<rparr>"
  let ?cand = "linspace (0.95 * ?r) (1.05 * ?r) 50"
  let ?phi = "map (\<lambda>r. pi / 2 * euler_slope ?ts 0 r) ?cand"
  note T = helper_scan_and_retry[where env = euler_env and z = "1 / 2" and mass = 1,
      OF refl refl refl refl]
  note S = helper_scan_and_retry[where env = stalling_env and z = 0 and mass = 1,
      OF refl refl refl refl]
  have len: "length (masses (ts_spacetime ?ts)) \<le> length (z_positions (ts_spacetime ?ts))"
    by (simp add: ts_binary_simps)
  have sym: "reflection_symmetric (ts_spacetime ?ts)"
    by (simp add: ts_binary_simps)
  have nf: "\<not> False" by simp
  have first: "find_r0 euler_env (trappedsurface_init (spacetime_init [- (1 / 2), 1 / 2] [1, 1] True) 0)
        [0.99 * ?r, 1.01 * ?r] False = (Some ValueError, ?ts)"
    using first_solve_default by (simp add: r0_empirical_default ts_binary_def)
  have scan: "scan_phi euler_env ?ts ?cand = Inr ?phi"
  proof (rule scan_phi_euler[OF len])
    show "list_all (\<lambda>r. r \<noteq> 0) ?cand"
      by (rule linspace_50_nonzero) (simp_all add: r0_empirical_default)
  qed
  from T first scan obtain k where k: "k < 50" "argmin ?phi = Inr k"
    "\<forall>i<50. ?phi ! k \<le> ?phi ! i"
    "\<forall>i<50. shooting_function euler_env ?ts (?cand ! i) = Inr (?phi ! i)"
    and helper: "FindHorizonBinarySymmetric euler_env (1 / 2) 1 =
      (case find_r0 euler_env ?ts [?cand ! k, 1.05 * ?r] False of
         (None, ts') \<Rightarrow> solve_and_convert euler_env ts'
       | (Some e, ts') \<Rightarrow> Some (Inl e))"
    by blast
  have c49: "?cand ! 49 = 1.05 * ?r" by (rule linspace_50_ends(2))
  have lenc: "length ?cand = 50" by (rule linspace_50_facts(1))
  have p0: "?phi ! 0 = pi / 2 * euler_slope ts_binary 0 (437703 / 400000)"
    and p49: "?phi ! 49 = pi / 2 * euler_slope ts_binary 0 (483777 / 400000)"
    using lenc by (simp_all add: linspace_50_ends euler_slope_ts_r0 r0_empirical_default)
  have neg: "?phi ! 0 < 0" "?phi ! 49 < 0"
    unfolding p0 p49 using euler_slope_binary_values(1,2)
    by (simp_all add: mult_less_0_iff)
  have le: "?phi ! k \<le> ?phi ! 0" "?phi ! k \<le> ?phi ! 49" using k(3) by simp_all
  then have pos: "0 < ?phi ! k * ?phi ! 49"
    using neg by (simp add: zero_less_mult_iff)
  have fk: "shooting_function euler_env ?ts (?cand ! k) = Inr (?phi ! k)"
    using k(1,4) by blast
  have f49: "shooting_function euler_env ?ts (1.05 * ?r) = Inr (?phi ! 49)"
    using k(4)[rule_format, of 49] unfolding c49 by simp
  have retry: "find_r0 euler_env ?ts [?cand ! k, 1.05 * ?r] False =
      (Some ValueError, ?ts\<lparr>ts_r0 := Some []\<rparr>)"
    unfolding find_r0_symmetric[OF sym nf] brentq_def fk f49 using pos by simp
  have h1: "FindHorizonBinarySymmetric euler_env (1 / 2) 1 = Some (Inl ValueError)"
    unfolding helper retry by simp
  have h2: "FindHorizonBinarySymmetric stalling_env 0 1 = Some (Inl RuntimeError)"
    using S first_solve_stalls by blast
  from first scan k(1,2) le h1 h2 r0_empirical_default show ?thesis by blast
qed

text \<open>
  The claim as written fails for the default arguments under the Euler instance: the
  candidate selected has an objective of larger magnitude than the candidate at the far
  edge of the window, so it does not minimise the magnitude.
\<close>

theorem helper_selects_signed_minimum:
  "\<exists>ts phi k.
      find_r0 euler_env (trappedsurface_init (spacetime_init [- (1 / 2), 1 / 2] [1, 1] True) 0)
        [0.99 * r0_empirical (1 / 2) 1, 1.01 * r0_empirical (1 / 2) 1] False = (Some ValueError, ts)
      \<and> scan_phi euler_env ts
          (linspace (0.95 * r0_empirical (1 / 2) 1) (1.05 * r0_empirical (1 / 2) 1) 50) = Inr phi
      \<and> argmin phi = Inr k
      \<and> \<bar>phi ! 49\<bar> < \<bar>phi ! k\<bar>"
proof -
  let ?ts = "ts_binary\<lparr>ts_r0 := Some []\<rparr>"
  let ?cand = "linspace (0.95 * r0_empirical (1 / 2) 1) (1.05 * r0_empirical (1 / 2) 1) 50"
  let ?phi = "map (\<lambda>r. pi / 2 * euler_slope ?ts 0 r) ?cand"
  have len: "length (masses (ts_spacetime ?ts)) \<le> length (z_positions (ts_spacetime ?ts))"
    by (simp add: ts_binary_simps)
  have first: "find_r0 euler_env (trappedsurface_init (spacetime_init [- (1 / 2), 1 / 2] [1, 1] True) 0)
        [0.99 * r0_empirical (1 / 2) 1, 1.01 * r0_empirical (1 / 2) 1] False = (Some ValueError, ?ts)"
    using first_solve_default by (simp add: r0_empirical_default ts_binary_def)
  have scan: "scan_phi euler_env ?ts ?cand = Inr ?phi"
  proof (rule scan_phi_euler[OF len])
    show "list_all (\<lambda>r. r \<noteq> 0) ?cand"
      by (rule linspace_50_nonzero) (simp_all add: r0_empirical_default)
  qed
  have lenphi: "length ?phi = 50" "?phi \<noteq> []"
    using linspace_50_facts(1)[of "0.95 * r0_empirical (1 / 2) 1" "1.05 * r0_empirical (1 / 2) 1"]
    by auto
  from argmin_spec[OF lenphi(2)] lenphi(1) obtain k where
    k: "argmin ?phi = Inr k" "k < 50" "\<forall>j<50. ?phi ! k \<le> ?phi ! j"
    by auto
  have p0: "?phi ! 0 = pi / 2 * euler_slope ts_binary 0 (437703 / 400000)"
    and p49: "?phi ! 49 = pi / 2 * euler_slope ts_binary 0 (483777 / 400000)"
    using linspace_50_facts(1)[of "0.95 * r0_empirical (1 / 2) 1" "1.05 * r0_empirical (1 / 2) 1"]
    by (simp_all add: linspace_50_ends euler_slope_ts_r0 r0_empirical_default)
  have "?phi ! 0 < ?phi ! 49" "?phi ! 49 < 0"
    unfolding p0 p49 using euler_slope_binary_values(1,2)
    by (simp_all add: mult_less_0_iff)
  moreover have "?phi ! k \<le> ?phi ! 0" using k(3) by simp
  ultimately have "\<bar>?phi ! 49\<bar> < \<bar>?phi ! k\<bar>" by linarith
  with first scan k(1) show ?thesis by blast
qed

end
